theory Spec2Isabelle
  imports Complex_Main "HOL-Library.Sublist"
begin

section \<open>Python values, exceptions and external calls\<close>

text \<open>
  The module \<^verbatim>\<open>mcp_helper.py\<close> is dynamically typed: tool arguments, provider responses,
  schemas and results are JSON-shaped Python values. They are modelled by one datatype.
  A \<^verbatim>\<open>dict\<close> is an association list in insertion order, read with \<open>map_of\<close>; its keys
  are strings, as in JSON. A Python \<^verbatim>\<open>str\<close> is the list of its UTF-8 bytes. A Python
  \<^verbatim>\<open>float\<close> is modelled by the rational number it denotes: binary64 rounding error is
  not part of the model.
\<close>

datatype pyval =
    PNone
  | PBool bool
  | PInt int
  | PFloat rat
  | PStr string
  | PList "pyval list"
  | PDict "(string \<times> pyval) list"

text \<open>
  The exceptions the module raises or catches. \<open>GoogleAPICallError\<close> stands for
  \<^verbatim>\<open>google.api_core.exceptions.GoogleAPICallError\<close> and its subclasses (BadRequest,
  Forbidden, NotFound, ...): its first field is \<^verbatim>\<open>e.message\<close>, its second \<^verbatim>\<open>str(e)\<close>.
  \<open>RequestException\<close> stands for \<^verbatim>\<open>requests.exceptions.RequestException\<close> and its
  subclasses. \<open>PlainException\<close> is \<^verbatim>\<open>Exception(msg)\<close> itself, \<open>OtherException\<close> any other
  subclass of \<^verbatim>\<open>Exception\<close> a library may raise. Every other constructor carries
  \<^verbatim>\<open>str(e)\<close>.
\<close>

datatype pyexc =
    GoogleAPICallError string string
  | RequestException string
  | ValueError string
  | TypeError string
  | KeyError string
  | IndexError string
  | AttributeError string
  | PlainException string
  | OtherException string

fun exc_str :: "pyexc \<Rightarrow> string" where
  "exc_str (GoogleAPICallError message s) = s"
| "exc_str (RequestException s) = s"
| "exc_str (ValueError s) = s"
| "exc_str (TypeError s) = s"
| "exc_str (KeyError s) = s"
| "exc_str (IndexError s) = s"
| "exc_str (AttributeError s) = s"
| "exc_str (PlainException s) = s"
| "exc_str (OtherException s) = s"

fun py_truthy :: "pyval \<Rightarrow> bool" where
  "py_truthy PNone = False"
| "py_truthy (PBool b) = b"
| "py_truthy (PInt i) = (i \<noteq> 0)"
| "py_truthy (PFloat r) = (r \<noteq> 0)"
| "py_truthy (PStr s) = (s \<noteq> [])"
| "py_truthy (PList xs) = (xs \<noteq> [])"
| "py_truthy (PDict kvs) = (kvs \<noteq> [])"

fun py_type_name :: "pyval \<Rightarrow> string" where
  "py_type_name PNone = ''NoneType''"
| "py_type_name (PBool b) = ''bool''"
| "py_type_name (PInt i) = ''int''"
| "py_type_name (PFloat r) = ''float''"
| "py_type_name (PStr s) = ''str''"
| "py_type_name (PList xs) = ''list''"
| "py_type_name (PDict kvs) = ''dict''"

definition py_quote :: "string \<Rightarrow> string" where
  "py_quote s = [CHR 0x27] @ s @ [CHR 0x27]"

text \<open>\<^verbatim>\<open>d.get(key)\<close> and \<^verbatim>\<open>d.get(key, default)\<close> on a dict.\<close>

definition dict_get :: "(string \<times> pyval) list \<Rightarrow> string \<Rightarrow> pyval" where
  "dict_get kvs k = (case map_of kvs k of None \<Rightarrow> PNone | Some v \<Rightarrow> v)"

definition dict_get_default :: "(string \<times> pyval) list \<Rightarrow> string \<Rightarrow> pyval \<Rightarrow> pyval" where
  "dict_get_default kvs k d = (case map_of kvs k of None \<Rightarrow> d | Some v \<Rightarrow> v)"

text \<open>
  \<^verbatim>\<open>arguments.get(key)\<close> where \<^verbatim>\<open>arguments\<close> is any value: only a dict has the
  method. Error messages are CPython's.
\<close>

fun py_get :: "pyval \<Rightarrow> string \<Rightarrow> pyexc + pyval" where
  "py_get (PDict kvs) k = Inr (dict_get kvs k)"
| "py_get v k =
     Inl (AttributeError (py_quote (py_type_name v) @ '' object has no attribute '' @ py_quote ''get''))"

text \<open>\<^verbatim>\<open>v[key]\<close> for a string key.\<close>

fun py_getitem_key :: "pyval \<Rightarrow> string \<Rightarrow> pyexc + pyval" where
  "py_getitem_key (PDict kvs) k =
     (case map_of kvs k of None \<Rightarrow> Inl (KeyError (py_quote k)) | Some v \<Rightarrow> Inr v)"
| "py_getitem_key (PList xs) k =
     Inl (TypeError ''list indices must be integers or slices, not str'')"
| "py_getitem_key (PStr s) k =
     Inl (TypeError (''string indices must be integers, not '' @ py_quote ''str''))"
| "py_getitem_key v k =
     Inl (TypeError (py_quote (py_type_name v) @ '' object is not subscriptable''))"

text \<open>
  \<^verbatim>\<open>v[0]\<close>. Indexing a string gives its first character; the module only ever
  subscripts that character again, which fails for any string.
\<close>

fun py_getitem_0 :: "pyval \<Rightarrow> pyexc + pyval" where
  "py_getitem_0 (PList xs) =
     (case xs of [] \<Rightarrow> Inl (IndexError ''list index out of range'') | x # _ \<Rightarrow> Inr x)"
| "py_getitem_0 (PStr s) =
     (case s of [] \<Rightarrow> Inl (IndexError ''string index out of range'') | c # _ \<Rightarrow> Inr (PStr [c]))"
| "py_getitem_0 (PDict kvs) = Inl (KeyError ''0'')"
| "py_getitem_0 v =
     Inl (TypeError (py_quote (py_type_name v) @ '' object is not subscriptable''))"

text \<open>\<^verbatim>\<open>key in v\<close> for a string key, and \<^verbatim>\<open>len(v)\<close>.\<close>

fun py_contains :: "string \<Rightarrow> pyval \<Rightarrow> pyexc + bool" where
  "py_contains k (PDict kvs) = Inr (k \<in> fst ` set kvs)"
| "py_contains k (PList xs) = Inr (PStr k \<in> set xs)"
| "py_contains k (PStr s) = Inr (sublist k s)"
| "py_contains k v =
     Inl (TypeError (''argument of type '' @ py_quote (py_type_name v) @ '' is not iterable''))"

fun py_len :: "pyval \<Rightarrow> pyexc + nat" where
  "py_len (PDict kvs) = Inr (length kvs)"
| "py_len (PList xs) = Inr (length xs)"
| "py_len (PStr s) = Inr (length s)"
| "py_len v =
     Inl (TypeError (''object of type '' @ py_quote (py_type_name v) @ '' has no len()''))"

text \<open>
  \<^verbatim>\<open>for col in v\<close>: the elements of a list, the keys of a dict, the characters of a string.
\<close>

fun py_iter :: "pyval \<Rightarrow> pyexc + pyval list" where
  "py_iter (PList xs) = Inr xs"
| "py_iter (PDict kvs) = Inr (map (\<lambda>kv. PStr (fst kv)) kvs)"
| "py_iter (PStr s) = Inr (map (\<lambda>c. PStr [c]) s)"
| "py_iter v = Inl (TypeError (py_quote (py_type_name v) @ '' object is not iterable''))"

text \<open>\<^verbatim>\<open>sep.join(parts)\<close>.\<close>

fun py_join :: "string \<Rightarrow> string list \<Rightarrow> string" where
  "py_join sep [] = []"
| "py_join sep [x] = x"
| "py_join sep (x # y # ys) = x @ sep @ py_join sep (y # ys)"

text \<open>
  \<^verbatim>\<open>round(x, ndigits)\<close> on a float: to the nearest multiple of \<open>10 ^ - ndigits\<close>, a tie to
  the even one.
\<close>

definition round_half_even :: "rat \<Rightarrow> int" where
  "round_half_even x =
     (let f = \<lfloor>x\<rfloor>; d = x - of_int f
      in if d < 1 / 2 then f else if 1 / 2 < d then f + 1 else if even f then f else f + 1)"

definition py_round :: "rat \<Rightarrow> nat \<Rightarrow> rat" where
  "py_round x ndigits = of_int (round_half_even (x * 10 ^ ndigits)) / 10 ^ ndigits"

subsection \<open>Results of fallible computations\<close>

definition bind_r :: "pyexc + 'a \<Rightarrow> ('a \<Rightarrow> pyexc + 'b) \<Rightarrow> pyexc + 'b" where
  "bind_r m f = (case m of Inl e \<Rightarrow> Inl e | Inr x \<Rightarrow> f x)"

fun map_r :: "('a \<Rightarrow> pyexc + 'b) \<Rightarrow> 'a list \<Rightarrow> pyexc + 'b list" where
  "map_r f [] = Inr []"
| "map_r f (x # xs) = bind_r (f x) (\<lambda>y. bind_r (map_r f xs) (\<lambda>ys. Inr (y # ys)))"

text \<open>
  A call to an external collaborator: the warehouse client or the text-generation
  provider. A computation of the module yields the calls it made, in order, and then
  either the exception it raised (\<open>Inl\<close>) or its result (\<open>Inr\<close>).
\<close>

datatype ext_call =
    ListDatasets string
  | ListTables string
  | GetTable pyval
  | DryRun pyval
  | RunQuery pyval
  | GeminiPost string pyval

type_synonym 'a io = "ext_call list \<times> (pyexc + 'a)"

definition return_io :: "'a \<Rightarrow> 'a io" where
  "return_io x = ([], Inr x)"

definition raise_io :: "pyexc \<Rightarrow> 'a io" where
  "raise_io e = ([], Inl e)"

definition lift_io :: "pyexc + 'a \<Rightarrow> 'a io" where
  "lift_io r = ([], r)"

definition call_io :: "ext_call \<Rightarrow> pyexc + 'a \<Rightarrow> 'a io" where
  "call_io c r = ([c], r)"

definition bind_io :: "'a io \<Rightarrow> ('a \<Rightarrow> 'b io) \<Rightarrow> 'b io" where
  "bind_io m f =
     (case m of
        (t, Inl e) \<Rightarrow> (t, Inl e)
      | (t, Inr x) \<Rightarrow> (case f x of (t', r) \<Rightarrow> (t @ t', r)))"

text \<open>\<^verbatim>\<open>try: m except Exception as e: h(e)\<close>.\<close>

definition try_io :: "'a io \<Rightarrow> (pyexc \<Rightarrow> 'a io) \<Rightarrow> 'a io" where
  "try_io m h =
     (case m of
        (t, Inl e) \<Rightarrow> (case h e of (t', r) \<Rightarrow> (t @ t', r))
      | (t, Inr x) \<Rightarrow> (t, Inr x))"

section \<open>The environment of the module\<close>

text \<open>
  What the module reads from outside itself, as one record: the answers of the
  warehouse client (\<^verbatim>\<open>client\<close>, built once at import), the answer of the provider's
  HTTP endpoint, the environment variable, the clock, and the library functions
  \<^verbatim>\<open>json.loads\<close>, \<^verbatim>\<open>str\<close> on a value that is not a string, and pandas'
  \<^verbatim>\<open>DataFrame(rows).to_string(index=False)\<close>. An answer is either the exception the
  call raises or its value.
  \<^item> \<open>list_datasets\<close>: \<^verbatim>\<open>list(client.list_datasets(project=p))\<close>, as the dataset ids;
  \<^item> \<open>list_tables\<close>: \<^verbatim>\<open>list(client.list_tables(dataset))\<close>, as the table ids;
  \<^item> \<open>get_table\<close>: \<^verbatim>\<open>client.get_table(table_id).schema\<close>, each field as its
    \<^verbatim>\<open>to_api_repr()\<close> dict;
  \<^item> \<open>dry_run\<close>: \<^verbatim>\<open>client.query(q, job_config=dry_run).total_bytes_processed\<close>, a byte
    count, or \<^verbatim>\<open>None\<close> when the job carries no such statistic;
  \<^item> \<open>run_query\<close>: the rows of \<^verbatim>\<open>client.query(q)\<close>, each as \<^verbatim>\<open>dict(row)\<close>;
  \<^item> \<open>gemini_post\<close>: \<^verbatim>\<open>requests.post(url, json=payload, timeout=30)\<close>, then
    \<^verbatim>\<open>raise_for_status()\<close> and \<^verbatim>\<open>json()\<close>;
  \<^item> \<open>fn_repr\<close>: \<^verbatim>\<open>str(generate_sql_query)\<close>, the rendering of the function object.
\<close>

text \<open>
  A cell of a result row: a JSON-native value, or an object \<^verbatim>\<open>json.dumps\<close> hands to its
  \<^verbatim>\<open>default\<close> hook: a date or datetime (with its \<^verbatim>\<open>isoformat()\<close>), a
  \<^verbatim>\<open>Decimal\<close>, or anything else (with its \<^verbatim>\<open>str\<close>).
\<close>

datatype bq_object =
    DateObj string
  | DecimalObj rat
  | OtherObj string

datatype cell =
    Plain pyval
  | Obj bq_object

record world =
  list_datasets :: "string \<Rightarrow> pyexc + string list"
  list_tables :: "string \<Rightarrow> pyexc + string list"
  get_table :: "pyval \<Rightarrow> pyexc + pyval list"
  dry_run :: "pyval \<Rightarrow> pyexc + nat option"
  run_query :: "pyval \<Rightarrow> pyexc + (string \<times> cell) list list"
  gemini_post :: "string \<Rightarrow> pyval \<Rightarrow> pyexc + pyval"
  getenv_GOOGLE_AI_KEY :: "string option"
  now_str :: string
  json_loads :: "string \<Rightarrow> pyval option"
  py_repr :: "pyval \<Rightarrow> string"
  fn_repr :: string
  df_to_string :: "pyval \<Rightarrow> string"

text \<open>\<^verbatim>\<open>str(v)\<close>, and \<^verbatim>\<open>{v}\<close> in an f-string.\<close>

definition py_str :: "world \<Rightarrow> pyval \<Rightarrow> string" where
  "py_str w v = (case v of PStr s \<Rightarrow> s | _ \<Rightarrow> py_repr w v)"

definition project_id :: string where
  "project_id = ''INSERT_YOUR_GOOGLE_CLOUD_PROJECT_ID''"

section \<open>MCP protocol handlers\<close>

definition handle_initialize :: pyval where
  "handle_initialize =
     PDict [
       (''protocolVersion'', PStr ''2024-11-05''),
       (''serverInfo'', PDict [(''name'', PStr ''bigquery-mcp''), (''version'', PStr ''0.1.0'')]),
       (''capabilities'',
          PDict [(''tools'', PDict [(''list'', PBool True), (''call'', PBool True)])])]"

definition handle_tools_list :: pyval where
  "handle_tools_list =
     PDict [
       (''tools'', PList [
          PDict [
            (''name'', PStr ''get_list_of_datasets_by_project_id''),
            (''description'', PStr (''This tool returns a list of available projects in the following project_id: '' @ project_id @ ''.'')),
            (''annotations'', PDict [(''read_only'', PBool False)]),
            (''inputSchema'', PDict [
               (''type'', PStr ''object''),
               (''properties'', PDict [
                  (''query'', PDict [
                     (''type'', PStr ''string''),
                     (''description'', PStr ''The user's question to get the list of datasets by project ID'')])]),
               (''required'', PList [PStr ''query'']),
               (''additionalProperties'', PBool False)])],
          PDict [
            (''name'', PStr ''get_table_schema''),
            (''description'', PStr ''This tool returns the schema for a specific BigQuery table.''),
            (''annotations'', PDict [(''read_only'', PBool False)]),
            (''inputSchema'', PDict [
               (''type'', PStr ''object''),
               (''properties'', PDict [
                  (''table_id'', PDict [
                     (''type'', PStr ''string''),
                     (''description'', PStr (''The ID of the table to get the schema for. e.g. 'project_id.dataset_id.table_id'' @ [CHR 0x27]))])]),
               (''required'', PList [PStr ''table_id'']),
               (''additionalProperties'', PBool False)])],
          PDict [
            (''name'', PStr ''create_custom_sql_query_to_review''),
            (''description'', PStr ''Create a custom SQL query for review based on a natural language question and a table ID for the user's review. This must be completed prior to any execution of the query.''),
            (''annotations'', PDict [(''read_only'', PBool False)]),
            (''inputSchema'', PDict [
               (''type'', PStr ''object''),
               (''properties'', PDict [
                  (''question'', PDict [
                     (''type'', PStr ''string''),
                     (''description'', PStr ''Natural language question to generate a SQL query for.'')]),
                  (''table_id'', PDict [
                     (''type'', PStr ''string''),
                     (''description'', PStr (''The ID of the table to generate a SQL query for. The complete table that is being queryed must include 3 parts. e.g. '' @ [CHR 0x27] @ project_id @ ''.dataset_id.table_id'' @ [CHR 0x27]))])]),
               (''required'', PList [PStr ''question'', PStr ''table_id'']),
               (''additionalProperties'', PBool False)])],
          PDict [
            (''name'', PStr ''run_sql_query''),
            (''description'', PStr ''Run the user's requested SQL query.''),
            (''annotations'', PDict [(''read_only'', PBool False)]),
            (''inputSchema'', PDict [
               (''type'', PStr ''object''),
               (''properties'', PDict [
                  (''sql_query'', PDict [
                     (''type'', PStr ''string''),
                     (''description'', PStr ''The complete sql query with no modifications to be run on the user's BigQuery instance.'')]),
                  (''confirmation_key'', PDict [
                     (''type'', PStr ''string''),
                     (''description'', PStr (''The key required for an LLM to run the query'' @ [CHR 0x27]))])]),
               (''required'', PList [PStr ''sql_query'', PStr ''confirmation_key'']),
               (''additionalProperties'', PBool False)])]])]"

section \<open>Tool: \<^verbatim>\<open>get_list_of_datasets_by_project_id\<close>\<close>

text \<open>
  The three decorations of the report lines, as the bytes of the source file.
\<close>

definition folder_icon :: string where
  "folder_icon = [CHR 0xC3, CHR 0xB0, CHR 0xC5, CHR 0xB8, CHR 0xE2, CHR 0x80, CHR 0x9C, CHR 0xE2, CHR 0x80, CHR 0x9A]"

definition branch_icon :: string where
  "branch_icon = [CHR 0xC3, CHR 0xA2, CHR 0xE2, CHR 0x80, CHR 0x9D, CHR 0xE2, CHR 0x80, CHR 0x9D, CHR 0xC3, CHR 0xA2, CHR 0xE2, CHR 0x80, CHR 0x9D, CHR 0xE2, CHR 0x82, CHR 0xAC, CHR 0xC3, CHR 0xA2, CHR 0xE2, CHR 0x80, CHR 0x9D, CHR 0xE2, CHR 0x82, CHR 0xAC]"

definition page_icon :: string where
  "page_icon = [CHR 0xC3, CHR 0xB0, CHR 0xC5, CHR 0xB8, CHR 0xE2, CHR 0x80, CHR 0x9C, CHR 0xE2, CHR 0x80, CHR 0x9E]"

text \<open>
  The loop \<^verbatim>\<open>for dataset in datasets\<close>: it appends to \<^verbatim>\<open>output_lines\<close>. A failure to
  list the tables of one dataset is caught inside the loop and becomes a line of the
  report.
\<close>

fun dataset_loop :: "world \<Rightarrow> string list \<Rightarrow> string list \<Rightarrow> string list io" where
  "dataset_loop w [] output_lines = return_io output_lines"
| "dataset_loop w (dataset # datasets) output_lines =
     (let output_lines1 = output_lines @ [''\<newline>'' @ folder_icon @ '' Dataset: '' @ dataset]
      in bind_io
           (try_io
              (bind_io (call_io (ListTables dataset) (list_tables w dataset)) (\<lambda>tables.
                 if tables \<noteq> []
                 then return_io
                        (output_lines1 @
                         map (\<lambda>table. ''   '' @ branch_icon @ '' '' @ page_icon @ '' Table: '' @ table) tables)
                 else return_io
                        (output_lines1 @ [''   '' @ branch_icon @ '' (No tables in this dataset)''])))
              (\<lambda>e. return_io
                     (output_lines1 @
                      [''   '' @ branch_icon @ '' [Error listing tables: '' @ exc_str e @ '']''])))
           (\<lambda>output_lines2. dataset_loop w datasets output_lines2))"

definition datasets_instructions :: "string \<Rightarrow> string" where
  "datasets_instructions joined_data =
     ''This following datasets live in the user's Google BigQuery Account:\<newline>'' @
     ''    '' @
     project_id @
     ''\<newline>'' @
     ''\<newline>'' @
     ''    Here are the datasets:\<newline>'' @
     ''    '' @
     joined_data @
     ''\<newline>'' @
     ''\<newline>'' @
     ''    Important: It is important that you reference this project_id ('' @
     project_id @
     '') when you return this data. This project_id helps confirm that you are pulling the right information.\<newline>'' @
     ''    ''"

text \<open>
  The outer \<^verbatim>\<open>try\<close> returns early (\<open>Inl\<close>) with a message when there is no dataset or
  when the listing fails; otherwise it leaves the collected lines (\<open>Inr\<close>). The argument
  is never read.
\<close>

definition get_list_of_datasets_by_project_id :: "world \<Rightarrow> pyval \<Rightarrow> pyval io" where
  "get_list_of_datasets_by_project_id w arguments =
     (let output_lines = [''--- Inspecting Project: '' @ project_id @ '' ---'']
      in bind_io
           (try_io
              (bind_io (call_io (ListDatasets project_id) (list_datasets w project_id)) (\<lambda>datasets.
                 if datasets = []
                 then return_io (Inl ''No datasets found in this project.'')
                 else bind_io (dataset_loop w datasets output_lines) (\<lambda>output_lines'.
                        return_io (Inr output_lines'))))
              (\<lambda>e. return_io
                     (Inl (''Error accessing project '' @ [CHR 0x27] @ project_id @ [CHR 0x27] @ '': '' @ exc_str e))))
           (\<lambda>r. case r of
                  Inl early \<Rightarrow> return_io (PStr early)
                | Inr output_lines' \<Rightarrow>
                    return_io (PStr (datasets_instructions (py_join ''\<newline>'' output_lines')))))"

section \<open>Tool: \<^verbatim>\<open>get_table_schema\<close>\<close>

definition get_table_schema :: "world \<Rightarrow> pyval \<Rightarrow> pyval io" where
  "get_table_schema w arguments =
     bind_io (lift_io (py_get arguments ''table_id'')) (\<lambda>table_id.
     bind_io (call_io (GetTable table_id) (get_table w table_id)) (\<lambda>schema_list.
     return_io (PList schema_list)))"

section \<open>Tool: \<^verbatim>\<open>create_custom_sql_query_to_review\<close>\<close>

subsection \<open>The dry run: \<^verbatim>\<open>check_query_validity_and_cost\<close>\<close>

text \<open>
  The whole body is inside the \<^verbatim>\<open>try\<close>: the dry run itself and the arithmetic on
  \<^verbatim>\<open>total_bytes_processed\<close>, which raises \<^verbatim>\<open>TypeError\<close> on \<^verbatim>\<open>None\<close>. The first handler
  takes \<^verbatim>\<open>GoogleAPICallError\<close>, the second every other \<^verbatim>\<open>Exception\<close>.
\<close>

definition check_query_validity_and_cost :: "world \<Rightarrow> pyval \<Rightarrow> pyval io" where
  "check_query_validity_and_cost w query_string =
     try_io
       (bind_io (call_io (DryRun query_string) (dry_run w query_string)) (\<lambda>total_bytes_processed.
          case total_bytes_processed of
            None \<Rightarrow>
              raise_io (TypeError (''unsupported operand type(s) for /: '' @ py_quote ''NoneType'' @
                                   '' and '' @ py_quote ''int''))
          | Some bytes_processed \<Rightarrow>
              (let terabytes = of_nat bytes_processed / (1024 ^ 4);
                   price_per_tb = 625 / 100;
                   estimated_cost = terabytes * price_per_tb
               in return_io
                    (PDict [
                       (''status'', PStr ''VALID''),
                       (''message'', PStr ''This query is valid.''),
                       (''estimated_cost_usd'', PFloat (py_round estimated_cost 6)),
                       (''bytes_processed'', PInt (int bytes_processed))]))))
       (\<lambda>e. case e of
              GoogleAPICallError message s \<Rightarrow>
                return_io
                  (PDict [
                     (''status'', PStr ''INVALID''),
                     (''message'', PStr ''The query cannot be executed.''),
                     (''error_details'', PStr message)])
            | _ \<Rightarrow>
                return_io
                  (PDict [
                     (''status'', PStr ''ERROR''),
                     (''message'', PStr ''An unexpected system error occurred.''),
                     (''error_details'', PStr (exc_str e))]))"

subsection \<open>The prompt: \<^verbatim>\<open>bq_sql_gnerator_system_prompt\<close>\<close>

definition schema_line :: "world \<Rightarrow> pyval \<Rightarrow> pyexc + string" where
  "schema_line w col =
     bind_r (py_getitem_key col ''name'') (\<lambda>name.
     bind_r (py_getitem_key col ''type'') (\<lambda>ty.
     bind_r (py_getitem_key col ''mode'') (\<lambda>mode.
     Inr (''- '' @ py_str w name @ '' ('' @ py_str w ty @ '', '' @ py_str w mode @ '')''))))"

definition system_prompt_text :: "world \<Rightarrow> pyval \<Rightarrow> string \<Rightarrow> pyval \<Rightarrow> string" where
  "system_prompt_text w user_question schema_text table_id =
     ''You are an expert BigQuery SQL analyst. You write correct, optimized,\<newline>'' @
     ''SELECT-only SQL queries based strictly on the table schema and the user's request.\<newline>'' @
     ''You never guess nonexistent columns. You avoid harmful commands such as\<newline>'' @
     ''DELETE, UPDATE, INSERT, DROP, TRUNCATE, and CREATE.\<newline>'' @
     ''\<newline>'' @
     ''# P (Problem):\<newline>'' @
     ''\<newline>'' @
     ''The user wants a SQL query constructed from a natural-language question.\<newline>'' @
     ''Today's timestamp is: '' @
     now_str w @
     ''.\<newline>'' @
     ''You must rely ONLY on the provided schema and table ID.\<newline>'' @
     ''Schema:\<newline>'' @
     schema_text @
     ''\<newline>'' @
     ''\<newline>'' @
     ''Table ID: '' @
     py_str w table_id @
     ''\<newline>'' @
     ''\<newline>'' @
     ''GUIDANCE:\<newline>'' @
     ''- Always produce a single valid SQL SELECT statement.\<newline>'' @
     ''- Always wrap the table that is being selected in `` (eg. FROM `project.dataset.table`)\<newline>'' @
     ''- All table names must include a project_id.datset_id.table_id. \<newline>'' @
     ''- Use fully qualified column names only if necessary.\<newline>'' @
     ''- Add WHERE filters based on the user's question.\<newline>'' @
     ''- If the question is ambiguous, choose the safest, simplest\<newline>'' @
     ''  interpretation that returns meaningful results.\<newline>'' @
     ''- Never include ORDER BY unless explicitly requested.\<newline>'' @
     ''- Never hallucinate fields that do not appear in the schema.\<newline>'' @
     ''- Never wrap your SQL in markdown or code fences. Return raw SQL ONLY.\<newline>'' @
     ''\<newline>'' @
     ''EXAMPLE INPUT QUESTION:\<newline>'' @
     ''\"Show me total impressions by device for yesterday for the site 'https://example.com'\"\<newline>'' @
     ''\<newline>'' @
     ''EXAMPLE SCHEMA:\<newline>'' @
     ''- data_date (DATE, NULLABLE)\<newline>'' @
     ''- site_url (STRING, NULLABLE)\<newline>'' @
     ''- query (STRING, NULLABLE)\<newline>'' @
     ''- is_anonymized_query (BOOLEAN, NULLABLE)\<newline>'' @
     ''- country (STRING, NULLABLE)\<newline>'' @
     ''- search_type (STRING, NULLABLE)\<newline>'' @
     ''- device (STRING, NULLABLE)\<newline>'' @
     ''- impressions (INTEGER, NULLABLE)\<newline>'' @
     ''- clicks (INTEGER, NULLABLE)\<newline>'' @
     ''- sum_top_position (INTEGER, NULLABLE)\<newline>'' @
     ''\<newline>'' @
     ''EXAMPLE SQL QUERY:\<newline>'' @
     ''SELECT\<newline>'' @
     ''  device,\<newline>'' @
     ''  SUM(impressions) AS total_impressions\<newline>'' @
     ''FROM `project.dataset.table`\<newline>'' @
     ''WHERE site_url = 'https://example.com'\<newline>'' @
     ''  AND data_date = DATE_SUB(CURRENT_DATE(), INTERVAL 1 DAY)\<newline>'' @
     ''GROUP BY device;\<newline>'' @
     ''\<newline>'' @
     ''END OF EXAMPLE.\<newline>'' @
     ''\<newline>'' @
     ''Now produce the SQL SELECT query for this user question:\<newline>'' @
     ''\"\"\"'' @
     py_str w user_question @
     ''\"\"\"\<newline>'' @
     ''\<newline>'' @
     ''Final note:\<newline>'' @
     ''The current time for this request is: '' @
     now_str w @
     ''\<newline>''"

definition bq_sql_gnerator_system_prompt :: "world \<Rightarrow> pyval \<Rightarrow> pyval \<Rightarrow> pyval \<Rightarrow> pyexc + string" where
  "bq_sql_gnerator_system_prompt w user_question schema table_id =
     bind_r (py_iter schema) (\<lambda>cols.
     bind_r (map_r (schema_line w) cols) (\<lambda>schema_lines.
     (let schema_text = py_join ''\<newline>'' schema_lines
      in Inr (system_prompt_text w user_question schema_text table_id))))"

subsection \<open>Synthesis and review: \<^verbatim>\<open>generate_sql_query\<close>\<close>

definition gemini_payload :: "world \<Rightarrow> string \<Rightarrow> pyval \<Rightarrow> pyval" where
  "gemini_payload w system_prompt question =
     PDict [
       (''system_instruction'', PDict [(''parts'', PList [PDict [(''text'', PStr system_prompt)]])]),
       (''contents'', PList [
          PDict [
            (''role'', PStr ''user''),
            (''parts'', PList [PDict [(''text'', PStr (py_str w question))]])]]),
       (''generationConfig'', PDict [
          (''temperature'', PFloat (1 / 10)),
          (''topK'', PInt 40),
          (''topP'', PFloat (95 / 100)),
          (''maxOutputTokens'', PInt 4096)])]"

definition gemini_url :: "string \<Rightarrow> string \<Rightarrow> string" where
  "gemini_url ai_model gemini_api_key =
     ''https://generativelanguage.googleapis.com/v1beta/models/'' @ ai_model @
     '':generateContent?key='' @ gemini_api_key"

text \<open>
  \<^verbatim>\<open>'candidates' in result and len(result['candidates']) > 0\<close>, and
  \<^verbatim>\<open>result['candidates'][0]['content']['parts'][0]['text']\<close>.
\<close>

definition has_candidates :: "pyval \<Rightarrow> pyexc + bool" where
  "has_candidates result =
     bind_r (py_contains ''candidates'' result) (\<lambda>present.
     if \<not> present then Inr False
     else bind_r (py_getitem_key result ''candidates'') (\<lambda>candidates.
          bind_r (py_len candidates) (\<lambda>n. Inr (0 < n))))"

definition candidate_text :: "pyval \<Rightarrow> pyexc + pyval" where
  "candidate_text result =
     bind_r (py_getitem_key result ''candidates'') (\<lambda>candidates.
     bind_r (py_getitem_0 candidates) (\<lambda>candidate.
     bind_r (py_getitem_key candidate ''content'') (\<lambda>content.
     bind_r (py_getitem_key content ''parts'') (\<lambda>parts.
     bind_r (py_getitem_0 parts) (\<lambda>part.
     py_getitem_key part ''text'')))))"

text \<open>
  The message of the \<^verbatim>\<open>INVALID\<close> branch. Its first placeholder is
  \<^verbatim>\<open>{generate_sql_query}\<close>, the function itself, not the variable
  \<^verbatim>\<open>generated_sql_query\<close>.
\<close>

definition invalid_message :: "world \<Rightarrow> pyval \<Rightarrow> pyval \<Rightarrow> string" where
  "invalid_message w question table_schema =
     ''This SQL query is not valid: \<newline>'' @
     ''                '' @
     fn_repr w @
     ''\<newline>'' @
     ''\<newline>'' @
     ''                Important: Guidance for presenting this sql query.\<newline>'' @
     ''\<newline>'' @
     ''                When a sql query is invalid, you can attempt to correct this query based on the user's question:\<newline>'' @
     ''                '' @
     py_str w question @
     ''\<newline>'' @
     ''\<newline>'' @
     ''                This query that was generated from this table has the following schema:\<newline>'' @
     ''                '' @
     py_str w table_schema @
     ''\<newline>'' @
     ''\<newline>'' @
     ''                It's also recommended to let the user know that the first pass at generating the query failed and you are requesting user input to validate the query.\<newline>'' @
     ''                 ''"

text \<open>The message of the \<^verbatim>\<open>else\<close> branch.\<close>

definition valid_message ::
  "world \<Rightarrow> pyval \<Rightarrow> pyval \<Rightarrow> pyval \<Rightarrow> pyval \<Rightarrow> pyval \<Rightarrow> pyval \<Rightarrow> string" where
  "valid_message w table_id question table_schema generated_sql_query estimated_cost_usd bytes_processed =
     ''This SQL statement helps pull data from the following Google BigQuery table:\<newline>'' @
     ''                '' @
     py_str w table_id @
     ''. \<newline>'' @
     ''\<newline>'' @
     ''                It helps answer the following question: \<newline>'' @
     ''                '' @
     py_str w question @
     ''\<newline>'' @
     ''\<newline>'' @
     ''                This table has the following schema:\<newline>'' @
     ''                '' @
     py_str w table_schema @
     ''\<newline>'' @
     ''\<newline>'' @
     ''                Important: Guidance for presenting this query to the user\<newline>'' @
     ''\<newline>'' @
     ''                When presenting this query to the user, please wrap the query in pre tags with a class=\"sql-query\" to ensure readability. \<newline>'' @
     ''                It's also very important to allow the user to test the query, by adding a <button class=\"execute-sql-query\">Execute SQL Query</button> at the very bottom of your response as a CTA. \<newline>'' @
     ''                There is already javascript on the page listening for clicks on this button. \<newline>'' @
     ''\<newline>'' @
     ''                Here is the generated sql query:\<newline>'' @
     ''                '' @
     py_str w generated_sql_query @
     ''   \<newline>'' @
     ''\<newline>'' @
     ''                Important: Sql Validation\<newline>'' @
     ''                This sql statement has been validated with the Google BigQuery QueryJobConfig method and can be executed. It is important to communicate to the user how much running this query could cost with the amounts processed for transparency reasons. \<newline>'' @
     ''                \<newline>'' @
     ''                These estimates should be share with the user and are from a dry run validation:\<newline>'' @
     ''                Estimated cost to run (USD): '' @
     py_str w estimated_cost_usd @
     ''\<newline>'' @
     ''                Estimated bytes processed on run: '' @
     py_str w bytes_processed @
     ''                \<newline>'' @
     ''                ''"

text \<open>
  The branch on the dry run's status. The \<^verbatim>\<open>else\<close> branch reads
  \<^verbatim>\<open>query_status['estimated_cost_usd']\<close> and \<^verbatim>\<open>query_status['bytes_processed']\<close>,
  whatever the status is. (The \<^verbatim>\<open>print('invalid')\<close> of the first branch writes to
  standard output only.)
\<close>

definition review_message ::
  "world \<Rightarrow> pyval \<Rightarrow> pyval \<Rightarrow> pyval \<Rightarrow> pyval \<Rightarrow> pyval \<Rightarrow> pyexc + string" where
  "review_message w question table_schema table_id generated_sql_query query_status =
     bind_r (py_getitem_key query_status ''status'') (\<lambda>status.
     if status = PStr ''INVALID''
     then Inr (invalid_message w question table_schema)
     else bind_r (py_getitem_key query_status ''estimated_cost_usd'') (\<lambda>estimated_cost_usd.
          bind_r (py_getitem_key query_status ''bytes_processed'') (\<lambda>bytes_processed.
          Inr (valid_message w table_id question table_schema generated_sql_query
                 estimated_cost_usd bytes_processed))))"

definition generate_sql_query :: "world \<Rightarrow> pyval \<Rightarrow> pyval \<Rightarrow> pyval \<Rightarrow> pyval io" where
  "generate_sql_query w question table_schema table_id =
     (if \<not> py_truthy question \<or> \<not> py_truthy table_id
      then raise_io (ValueError ''question and table_id are required'')
      else
        (case getenv_GOOGLE_AI_KEY w of
           None \<Rightarrow> raise_io (ValueError ''GOOGLE_AI_KEY environment variable is not set'')
         | Some gemini_api_key \<Rightarrow>
             if gemini_api_key = []
             then raise_io (ValueError ''GOOGLE_AI_KEY environment variable is not set'')
             else
               bind_io (lift_io (bq_sql_gnerator_system_prompt w question table_schema table_id))
                 (\<lambda>system_prompt.
               (let ai_model = ''gemini-2.5-flash'';
                    payload = gemini_payload w system_prompt question;
                    url = gemini_url ai_model gemini_api_key
                in try_io
                     (bind_io (call_io (GeminiPost url payload) (gemini_post w url payload)) (\<lambda>result.
                      bind_io (lift_io (has_candidates result)) (\<lambda>found.
                      if found
                      then
                        bind_io (lift_io (candidate_text result)) (\<lambda>generated_sql_query.
                        bind_io (check_query_validity_and_cost w generated_sql_query) (\<lambda>query_status.
                        bind_io (lift_io (review_message w question table_schema table_id
                                            generated_sql_query query_status))
                          (\<lambda>generated_sql_with_instructions.
                        return_io
                          (PDict [
                             (''sql_query'', PStr generated_sql_with_instructions),
                             (''user_query'', question),
                             (''status'', PStr ''success'')]))))
                      else
                        return_io
                          (PDict [
                             (''sql_query'', PStr ''No results generated from Gemini API''),
                             (''user_query'', question),
                             (''status'', PStr ''no_results'')]))))
                     (\<lambda>e. case e of
                            RequestException s \<Rightarrow>
                              raise_io (PlainException (''Gemini API request failed: '' @ exc_str e))
                          | _ \<Rightarrow>
                              raise_io (PlainException
                                (''Error processing Gemini API response: '' @ exc_str e)))))))"

definition create_custom_sql_query_to_review :: "world \<Rightarrow> pyval \<Rightarrow> pyval io" where
  "create_custom_sql_query_to_review w arguments =
     bind_io (lift_io (py_get arguments ''question'')) (\<lambda>question.
     bind_io (lift_io (py_get arguments ''table_id'')) (\<lambda>table_id.
     bind_io (get_table_schema w (PDict [(''table_id'', table_id)])) (\<lambda>schema.
     bind_io (generate_sql_query w question schema table_id) (\<lambda>sql.
     return_io sql))))"

section \<open>Tool: \<^verbatim>\<open>run_sql_query\<close>\<close>

fun json_serializable_converter :: "bq_object \<Rightarrow> pyval" where
  "json_serializable_converter (DateObj isoformat) = PStr isoformat"
| "json_serializable_converter (DecimalObj d) = PFloat d"
| "json_serializable_converter (OtherObj s) = PStr s"

text \<open>
  \<^verbatim>\<open>json.loads(json.dumps(rows, default=json_serializable_converter))\<close>: a JSON-native
  cell is kept, any other goes through the converter.
\<close>

fun clean_cell :: "cell \<Rightarrow> pyval" where
  "clean_cell (Plain v) = v"
| "clean_cell (Obj ob) = json_serializable_converter ob"

definition clean_rows :: "(string \<times> cell) list list \<Rightarrow> pyval" where
  "clean_rows rows = PList (map (\<lambda>row. PDict (map (\<lambda>kc. (fst kc, clean_cell (snd kc))) row)) rows)"

text \<open>
  Only \<^verbatim>\<open>arguments.get('sql_query')\<close> is read. The string \<^verbatim>\<open>final_results\<close> the source
  builds after the table is never used: the function returns \<^verbatim>\<open>table_str\<close>.
\<close>

definition run_sql_query_via_bq_api :: "world \<Rightarrow> pyval \<Rightarrow> pyval io" where
  "run_sql_query_via_bq_api w arguments =
     bind_io (lift_io (py_get arguments ''sql_query'')) (\<lambda>sql_query.
     bind_io (call_io (RunQuery sql_query) (run_query w sql_query)) (\<lambda>rows.
     (let table_str = df_to_string w (clean_rows rows)
      in return_io (PStr table_str))))"

section \<open>Request routing\<close>

definition text_content :: "string \<Rightarrow> pyval" where
  "text_content s = PList [PDict [(''type'', PStr ''text''), (''text'', PStr s)]]"

text \<open>
  \<^verbatim>\<open>if isinstance(arguments, str): arguments = json.loads(arguments)\<close>; \<open>None\<close> when
  \<^verbatim>\<open>json.loads\<close> raises.
\<close>

definition decode_arguments :: "world \<Rightarrow> pyval \<Rightarrow> pyval option" where
  "decode_arguments w arguments =
     (case arguments of PStr s \<Rightarrow> json_loads w s | _ \<Rightarrow> Some arguments)"

definition handle_tool_call :: "world \<Rightarrow> (string \<times> pyval) list \<Rightarrow> pyval io" where
  "handle_tool_call w params =
     (let tool_name = dict_get params ''name'';
          arguments = dict_get_default params ''arguments'' (PDict [])
      in case decode_arguments w arguments of
           None \<Rightarrow>
             return_io
               (PDict [
                  (''isError'', PBool True),
                  (''content'', text_content ''Invalid arguments: expected object or JSON string.'')])
         | Some arguments' \<Rightarrow>
             if tool_name = PStr ''get_list_of_datasets_by_project_id''
             then bind_io (get_list_of_datasets_by_project_id w arguments') (\<lambda>data.
                  return_io (PDict [(''content'', text_content (py_str w data))]))
             else if tool_name = PStr ''get_table_schema''
             then bind_io (get_table_schema w arguments') (\<lambda>data.
                  return_io (PDict [(''content'', text_content (py_str w data))]))
             else if tool_name = PStr ''create_custom_sql_query_to_review''
             then bind_io (create_custom_sql_query_to_review w arguments') (\<lambda>data.
                  return_io (PDict [(''content'', text_content (py_str w data))]))
             else if tool_name = PStr ''run_sql_query''
             then bind_io (run_sql_query_via_bq_api w arguments') (\<lambda>data.
                  return_io (PDict [(''content'', text_content (py_str w data))]))
             else
               return_io
                 (PDict [
                    (''isError'', PBool True),
                    (''content'', text_content (''Tool not found: '' @ py_str w tool_name))]))"

definition handle_request :: "world \<Rightarrow> string \<Rightarrow> (string \<times> pyval) list \<Rightarrow> pyval io" where
  "handle_request w method_name params =
     (if method_name = ''initialize'' then return_io handle_initialize
      else if method_name = ''tools/list'' then return_io handle_tools_list
      else if method_name = ''tools/call'' then handle_tool_call w params
      else raise_io (ValueError (''Method not found: '' @ method_name)))"

section \<open>Reading results, and sample environments\<close>

text \<open>The field \<open>k\<close> of the dict a computation returns, if it returns one.\<close>

definition result_field :: "pyval io \<Rightarrow> string \<Rightarrow> pyval option" where
  "result_field m k = (case snd m of Inr (PDict kvs) \<Rightarrow> map_of kvs k | _ \<Rightarrow> None)"

definition is_api_error :: "pyexc \<Rightarrow> bool" where
  "is_api_error e = (case e of GoogleAPICallError message s \<Rightarrow> True | _ \<Rightarrow> False)"

text \<open>
  An environment with an empty warehouse, no provider credential and a decoder that
  rejects every string; the environments below change one answer at a time.
\<close>

definition quiet_world :: world where
  "quiet_world =
     \<lparr> list_datasets = (\<lambda>p. Inr []),
       list_tables = (\<lambda>d. Inr []),
       get_table = (\<lambda>t. Inr []),
       dry_run = (\<lambda>q. Inr (Some 0)),
       run_query = (\<lambda>q. Inr []),
       gemini_post = (\<lambda>u p. Inr (PDict [])),
       getenv_GOOGLE_AI_KEY = None,
       now_str = ''2025-01-01 00:00:00'',
       json_loads = (\<lambda>s. None),
       py_repr = (\<lambda>v. ''<repr>''),
       fn_repr = ''<function generate_sql_query at 0x7f3a5c1d2e50>'',
       df_to_string = (\<lambda>v. ''Empty DataFrame'') \<rparr>"


text \<open>A warehouse that rejects every statement through its API-error channel.\<close>

definition rejecting_world :: world where
  "rejecting_world =
     quiet_world \<lparr> dry_run := (\<lambda>q. Inl (GoogleAPICallError ''Syntax error'' ''400 Syntax error'')) \<rparr>"

text \<open>
  The registry: the handler \<^verbatim>\<open>handle_tool_call\<close> invokes for a tool name, as its chain of
  comparisons decides it.
\<close>

definition registered_handler :: "pyval \<Rightarrow> (world \<Rightarrow> pyval \<Rightarrow> pyval io) option" where
  "registered_handler tool_name =
     (if tool_name = PStr ''get_list_of_datasets_by_project_id''
      then Some get_list_of_datasets_by_project_id
      else if tool_name = PStr ''get_table_schema'' then Some get_table_schema
      else if tool_name = PStr ''create_custom_sql_query_to_review''
      then Some create_custom_sql_query_to_review
      else if tool_name = PStr ''run_sql_query'' then Some run_sql_query_via_bq_api
      else None)"

text \<open>The two shapes of a tool-call result.\<close>

definition success_result :: "string \<Rightarrow> pyval" where
  "success_result s =
     PDict [(''content'', PList [PDict [(''type'', PStr ''text''), (''text'', PStr s)]])]"

definition failure_result :: "string \<Rightarrow> pyval" where
  "failure_result s =
     PDict [(''isError'', PBool True),
            (''content'', PList [PDict [(''type'', PStr ''text''), (''text'', PStr s)]])]"

text \<open>The field \<open>k\<close> of a tool descriptor's \<^verbatim>\<open>inputSchema\<close>.\<close>

definition input_schema_field :: "pyval \<Rightarrow> string \<Rightarrow> pyexc + pyval" where
  "input_schema_field descriptor k =
     bind_r (py_getitem_key descriptor ''inputSchema'') (\<lambda>s. py_getitem_key s k)"

text \<open>
  A warehouse with one result row, and a decoder that knows one JSON text: the
  string-encoded arguments \<^verbatim>\<open>{"sql_query":"SELECT 1","confirmation_key":"x"}\<close>.
\<close>

definition scenario_world :: world where
  "scenario_world =
     quiet_world \<lparr>
       run_query := (\<lambda>q. if q = PStr ''SELECT 1'' then Inr [[(''f0_'', Plain (PInt 1))]]
                          else Inl (GoogleAPICallError ''Syntax error'' ''400 Syntax error'')),
       json_loads := (\<lambda>s. if s = ''{\"sql_query\":\"SELECT 1\",\"confirmation_key\":\"x\"}''
                           then Some (PDict [(''sql_query'', PStr ''SELECT 1''),
                                             (''confirmation_key'', PStr ''x'')])
                           else None),
       df_to_string := (\<lambda>v. if v = PList [PDict [(''f0_'', PInt 1)]] then '' f0_\<newline>   1''
                             else ''Empty DataFrame'') \<rparr>"

text \<open>A warehouse that knows no table.\<close>

definition missing_table_world :: world where
  "missing_table_world =
     quiet_world \<lparr>
       get_table := (\<lambda>t. Inl (GoogleAPICallError ''Not found: Table p.d.missing''
                                ''404 Not found: Table p.d.missing'')) \<rparr>"

text \<open>The tool names of the registry, in the order \<^verbatim>\<open>tools/list\<close> announces them.\<close>

definition tool_names :: "string list" where
  "tool_names =
     [''get_list_of_datasets_by_project_id'', ''get_table_schema'',
      ''create_custom_sql_query_to_review'', ''run_sql_query'']"

text \<open>
  The descriptors \<^verbatim>\<open>tools/list\<close> returns, and the \<^verbatim>\<open>required\<close> list of the descriptor
  with a given name.
\<close>

definition listed_tools :: "pyval list" where
  "listed_tools =
     (case py_getitem_key handle_tools_list ''tools'' of Inr (PList ds) \<Rightarrow> ds | _ \<Rightarrow> [])"

definition required_of :: "string \<Rightarrow> pyval option" where
  "required_of name =
     (case find (\<lambda>d. py_getitem_key d ''name'' = Inr (PStr name)) listed_tools of
        None \<Rightarrow> None
      | Some d \<Rightarrow> (case input_schema_field d ''required'' of Inl e \<Rightarrow> None | Inr v \<Rightarrow> Some v))"

text \<open>
  A provider that answers every request with the candidate \<^verbatim>\<open>SELEC 1\<close>, with the
  credential set. The warehouse rejects the candidate (\<open>invalid_sql_world\<close>), accepts it
  with 1024 bytes to scan (\<open>valid_sql_world\<close>), or fails outside its API-error channel
  (\<open>broken_dry_run_world\<close>).
\<close>

definition candidate_response :: pyval where
  "candidate_response =
     PDict [(''candidates'', PList [
        PDict [(''content'', PDict [(''parts'', PList [PDict [(''text'', PStr ''SELEC 1'')]])])]])]"

definition invalid_sql_world :: world where
  "invalid_sql_world =
     quiet_world \<lparr>
       dry_run := (\<lambda>q. Inl (GoogleAPICallError ''Syntax error'' ''400 Syntax error'')),
       gemini_post := (\<lambda>u p. Inr candidate_response),
       getenv_GOOGLE_AI_KEY := Some ''key'' \<rparr>"

definition valid_sql_world :: world where
  "valid_sql_world =
     quiet_world \<lparr>
       dry_run := (\<lambda>q. Inr (Some 1024)),
       gemini_post := (\<lambda>u p. Inr candidate_response),
       getenv_GOOGLE_AI_KEY := Some ''key'' \<rparr>"

definition broken_dry_run_world :: world where
  "broken_dry_run_world =
     quiet_world \<lparr>
       dry_run := (\<lambda>q. Inl (OtherException ''connection reset'')),
       gemini_post := (\<lambda>u p. Inr candidate_response),
       getenv_GOOGLE_AI_KEY := Some ''key'' \<rparr>"

definition users_schema :: pyval where
  "users_schema =
     PList [
       PDict [(''name'', PStr ''id''), (''type'', PStr ''INTEGER''), (''mode'', PStr ''REQUIRED'')],
       PDict [(''name'', PStr ''name''), (''type'', PStr ''STRING''), (''mode'', PStr ''NULLABLE'')]]"

section \<open>Basic facts about computations\<close>

lemma bind_io_Inl: "bind_io (t, Inl e) f = (t, Inl e)"
  by (simp add: bind_io_def)

lemma bind_io_Inr: "bind_io (t, Inr x) f = (t @ fst (f x), snd (f x))"
  by (simp add: bind_io_def split: prod.splits)

lemma try_io_Inr: "try_io (t, Inr x) h = (t, Inr x)"
  by (simp add: try_io_def)

lemma try_io_Inl: "try_io (t, Inl e) h = (t @ fst (h e), snd (h e))"
  by (simp add: try_io_def split: prod.splits)

lemmas io_simps = bind_io_Inl bind_io_Inr try_io_Inr try_io_Inl
  return_io_def raise_io_def lift_io_def call_io_def

section \<open>The dry run classifies every statement\<close>

lemma check_valid:
  "dry_run w q = Inr (Some b) \<Longrightarrow>
   check_query_validity_and_cost w q =
     ([DryRun q], Inr (PDict [
        (''status'', PStr ''VALID''),
        (''message'', PStr ''This query is valid.''),
        (''estimated_cost_usd'', PFloat (py_round (of_nat b / (1024 ^ 4) * (625 / 100)) 6)),
        (''bytes_processed'', PInt (int b))]))"
  by (simp add: check_query_validity_and_cost_def io_simps Let_def)

lemma check_invalid:
  "dry_run w q = Inl (GoogleAPICallError m s) \<Longrightarrow>
   check_query_validity_and_cost w q =
     ([DryRun q], Inr (PDict [
        (''status'', PStr ''INVALID''),
        (''message'', PStr ''The query cannot be executed.''),
        (''error_details'', PStr m)]))"
  by (simp add: check_query_validity_and_cost_def io_simps)

lemma check_error_exc:
  "dry_run w q = Inl e \<Longrightarrow> \<not> is_api_error e \<Longrightarrow>
   check_query_validity_and_cost w q =
     ([DryRun q], Inr (PDict [
        (''status'', PStr ''ERROR''),
        (''message'', PStr ''An unexpected system error occurred.''),
        (''error_details'', PStr (exc_str e))]))"
  by (cases e) (simp_all add: check_query_validity_and_cost_def io_simps is_api_error_def)

lemma check_error_none:
  "dry_run w q = Inr None \<Longrightarrow>
   check_query_validity_and_cost w q =
     ([DryRun q], Inr (PDict [
        (''status'', PStr ''ERROR''),
        (''message'', PStr ''An unexpected system error occurred.''),
        (''error_details'', PStr (''unsupported operand type(s) for /: '' @ py_quote ''NoneType'' @
                                   '' and '' @ py_quote ''int''))]))"
  by (simp add: check_query_validity_and_cost_def io_simps)

text \<open>The four ways a dry run can end.\<close>

lemma dry_run_cases:
  obtains (valid) b where "dry_run w q = Inr (Some b)"
  | (invalid) m s where "dry_run w q = Inl (GoogleAPICallError m s)"
  | (error_exc) e where "dry_run w q = Inl e" "\<not> is_api_error e"
  | (error_none) "dry_run w q = Inr None"
proof (cases "dry_run w q")
  case (Inl e)
  then show ?thesis
    by (cases e) (auto simp: is_api_error_def intro: invalid error_exc)
next
  case (Inr ob)
  then show ?thesis
    by (cases ob) (auto intro: valid error_none)
qed

text \<open>
  Claim C2. \<^verbatim>\<open>check_query_validity_and_cost\<close> never raises and makes one dry-run call;
  the status of its result is exactly one of \<^verbatim>\<open>VALID\<close>, \<^verbatim>\<open>INVALID\<close> and \<^verbatim>\<open>ERROR\<close>:
  \<^verbatim>\<open>VALID\<close> exactly when the dry run returns a byte count, \<^verbatim>\<open>INVALID\<close> exactly when
  the dry run raises \<^verbatim>\<open>GoogleAPICallError\<close> (the warehouse's API-error channel), and
  \<^verbatim>\<open>ERROR\<close> exactly when anything else is raised inside the \<^verbatim>\<open>try\<close>: another
  exception of the dry run, or the \<^verbatim>\<open>TypeError\<close> of the arithmetic on a missing count.
\<close>

theorem cost_guard_classification:
  "\<exists>r. check_query_validity_and_cost w q = ([DryRun q], Inr (PDict r)) \<and>
     map_of r ''status'' \<in> {Some (PStr ''VALID''), Some (PStr ''INVALID''), Some (PStr ''ERROR'')} \<and>
     (map_of r ''status'' = Some (PStr ''VALID'') \<longleftrightarrow> (\<exists>b. dry_run w q = Inr (Some b))) \<and>
     (map_of r ''status'' = Some (PStr ''INVALID'') \<longleftrightarrow>
        (\<exists>m s. dry_run w q = Inl (GoogleAPICallError m s))) \<and>
     (map_of r ''status'' = Some (PStr ''ERROR'') \<longleftrightarrow>
        dry_run w q = Inr None \<or> (\<exists>e. dry_run w q = Inl e \<and> \<not> is_api_error e))"
proof (cases w q rule: dry_run_cases)
  case (valid b)
  then show ?thesis by (simp add: check_valid is_api_error_def)
next
  case (invalid m s)
  then show ?thesis by (simp add: check_invalid is_api_error_def)
next
  case (error_exc e)
  then show ?thesis by (auto simp: check_error_exc is_api_error_def)
next
  case error_none
  then show ?thesis by (simp add: check_error_none)
qed

theorem cost_guard_classification_witness:
  "\<exists>r. check_query_validity_and_cost rejecting_world (PStr ''SELEC 1'') =
          ([DryRun (PStr ''SELEC 1'')], Inr (PDict r)) \<and>
        map_of r ''status'' = Some (PStr ''INVALID'')"
proof -
  have "dry_run rejecting_world (PStr ''SELEC 1'') =
          Inl (GoogleAPICallError ''Syntax error'' ''400 Syntax error'')"
    by (simp add: rejecting_world_def quiet_world_def)
  with cost_guard_classification [of rejecting_world "PStr ''SELEC 1''"]
  show ?thesis by auto
qed



section \<open>Dispatch of a tool call\<close>

text \<open>
  \<^verbatim>\<open>handle_tool_call\<close> in one equation: the decoding of string arguments, then the
  registry. The result of a handler is wrapped; an exception of a handler is not caught.
\<close>

lemma handle_tool_call_dispatch:
  "handle_tool_call w params =
     (case decode_arguments w (dict_get_default params ''arguments'' (PDict [])) of
        None \<Rightarrow> ([], Inr (failure_result ''Invalid arguments: expected object or JSON string.''))
      | Some a \<Rightarrow>
          (case registered_handler (dict_get params ''name'') of
             None \<Rightarrow> ([], Inr (failure_result (''Tool not found: '' @ py_str w (dict_get params ''name''))))
           | Some h \<Rightarrow> bind_io (h w a) (\<lambda>data. ([], Inr (success_result (py_str w data))))))"
  by (simp add: handle_tool_call_def registered_handler_def failure_result_def success_result_def
      text_content_def return_io_def Let_def split: option.splits)

section \<open>\<^verbatim>\<open>run_sql_query\<close> reads one argument\<close>

lemma run_sql_query_reads_sql_query:
  "run_sql_query_via_bq_api w (PDict a) =
     bind_io (call_io (RunQuery (dict_get a ''sql_query'')) (run_query w (dict_get a ''sql_query'')))
       (\<lambda>rows. return_io (PStr (df_to_string w (clean_rows rows))))"
  by (simp add: run_sql_query_via_bq_api_def io_simps Let_def)

lemma dict_get_cong: "map_of a k = map_of b k \<Longrightarrow> dict_get a k = dict_get b k"
  by (simp add: dict_get_def)

text \<open>
  Claim C6. Two argument mappings that agree on \<^verbatim>\<open>sql_query\<close> give the same outcome of
  \<^verbatim>\<open>run_sql_query\<close> in the same environment, whatever they hold under
  \<^verbatim>\<open>confirmation_key\<close> or any other key: the same external calls, and the same table
  or the same exception. This holds for the handler and for the dispatch to it.
\<close>

theorem run_sql_query_ignores_confirmation_key:
  "map_of a1 ''sql_query'' = map_of a2 ''sql_query'' \<Longrightarrow>
   run_sql_query_via_bq_api w (PDict a1) = run_sql_query_via_bq_api w (PDict a2) \<and>
   handle_tool_call w [(''name'', PStr ''run_sql_query''), (''arguments'', PDict a1)] =
   handle_tool_call w [(''name'', PStr ''run_sql_query''), (''arguments'', PDict a2)]"
proof -
  assume "map_of a1 ''sql_query'' = map_of a2 ''sql_query''"
  then have "dict_get a1 ''sql_query'' = dict_get a2 ''sql_query''"
    by (rule dict_get_cong)
  then have eq: "run_sql_query_via_bq_api w (PDict a1) = run_sql_query_via_bq_api w (PDict a2)"
    by (simp add: run_sql_query_reads_sql_query)
  then show ?thesis
    by (simp add: handle_tool_call_dispatch registered_handler_def decode_arguments_def
        dict_get_def dict_get_default_def)
qed

lemma scenario_run:
  "run_sql_query_via_bq_api scenario_world (PDict [(''sql_query'', PStr ''SELECT 1'')]) =
     ([RunQuery (PStr ''SELECT 1'')], Inr (PStr '' f0_\<newline>   1''))"
  by (simp add: run_sql_query_reads_sql_query dict_get_def io_simps scenario_world_def
      quiet_world_def clean_rows_def)

lemma scenario_call:
  "handle_tool_call scenario_world
     [(''name'', PStr ''run_sql_query''),
      (''arguments'', PDict [(''sql_query'', PStr ''SELECT 1''), (''confirmation_key'', PStr ''x'')])] =
     ([RunQuery (PStr ''SELECT 1'')], Inr (success_result '' f0_\<newline>   1''))"
  by (simp add: handle_tool_call_dispatch decode_arguments_def dict_get_default_def dict_get_def
      registered_handler_def run_sql_query_reads_sql_query io_simps scenario_world_def
      quiet_world_def clean_rows_def py_str_def)

theorem run_sql_query_ignores_confirmation_key_witness:
  "run_sql_query_via_bq_api scenario_world
     (PDict [(''sql_query'', PStr ''SELECT 1''), (''confirmation_key'', PStr ''x'')]) =
     ([RunQuery (PStr ''SELECT 1'')], Inr (PStr '' f0_\<newline>   1'')) \<and>
   run_sql_query_via_bq_api scenario_world
     (PDict [(''confirmation_key'', PStr ''another key''), (''sql_query'', PStr ''SELECT 1'')]) =
     ([RunQuery (PStr ''SELECT 1'')], Inr (PStr '' f0_\<newline>   1''))"
proof -
  have a: "map_of [(''sql_query'', PStr ''SELECT 1''), (''confirmation_key'', PStr ''x'')] ''sql_query'' =
           map_of [(''sql_query'', PStr ''SELECT 1'')] ''sql_query''"
    by simp
  have b: "map_of [(''confirmation_key'', PStr ''another key''), (''sql_query'', PStr ''SELECT 1'')] ''sql_query'' =
           map_of [(''sql_query'', PStr ''SELECT 1'')] ''sql_query''"
    by simp
  show ?thesis
    using run_sql_query_ignores_confirmation_key [OF a, of scenario_world]
      run_sql_query_ignores_confirmation_key [OF b, of scenario_world]
    by (simp add: scenario_run)
qed

section \<open>Configuration errors of the synthesis step\<close>

text \<open>
  Claim C7. \<^verbatim>\<open>generate_sql_query\<close> raises \<^verbatim>\<open>ValueError\<close> when the question or the table
  id is missing (\<^verbatim>\<open>None\<close>, empty, or otherwise falsy), and when both are given but the
  provider credential \<^verbatim>\<open>GOOGLE_AI_KEY\<close> is unset or empty. In both cases it has made no
  external call: neither the provider request nor the dry run.
\<close>

theorem synthesis_configuration_error:
  "(\<not> py_truthy question \<or> \<not> py_truthy table_id \<longrightarrow>
      generate_sql_query w question table_schema table_id =
        ([], Inl (ValueError ''question and table_id are required''))) \<and>
   (py_truthy question \<and> py_truthy table_id \<and>
    (getenv_GOOGLE_AI_KEY w = None \<or> getenv_GOOGLE_AI_KEY w = Some []) \<longrightarrow>
      generate_sql_query w question table_schema table_id =
        ([], Inl (ValueError ''GOOGLE_AI_KEY environment variable is not set'')))"
  by (auto simp: generate_sql_query_def raise_io_def)

theorem synthesis_configuration_error_witness:
  "generate_sql_query quiet_world PNone (PList []) (PStr ''p.d.t'') =
     ([], Inl (ValueError ''question and table_id are required'')) \<and>
   generate_sql_query quiet_world (PStr ''how many rows?'') (PList []) (PStr '''') =
     ([], Inl (ValueError ''question and table_id are required'')) \<and>
   generate_sql_query quiet_world (PStr ''how many rows?'') (PList []) (PStr ''p.d.t'') =
     ([], Inl (ValueError ''GOOGLE_AI_KEY environment variable is not set''))"
  using synthesis_configuration_error [of PNone "PStr ''p.d.t''" quiet_world "PList []"]
    synthesis_configuration_error [of "PStr ''how many rows?''" "PStr ''''" quiet_world "PList []"]
    synthesis_configuration_error [of "PStr ''how many rows?''" "PStr ''p.d.t''" quiet_world "PList []"]
  by (simp add: quiet_world_def)

lemma get_table_schema_dict:
  "get_table_schema w (PDict a) =
     ([GetTable (dict_get a ''table_id'')], map_sum id PList (get_table w (dict_get a ''table_id'')))"
  by (cases "get_table w (dict_get a ''table_id'')") (simp_all add: get_table_schema_def io_simps)

lemma dict_get_single: "dict_get [(k, v)] k = v"
  by (simp add: dict_get_def)

text \<open>
  In the tool \<^verbatim>\<open>create_custom_sql_query_to_review\<close> the schema is fetched before
  \<^verbatim>\<open>generate_sql_query\<close> is called: when the synthesis step fails on its checks, the
  warehouse has been asked for the table once.
\<close>

lemma create_custom_fetches_schema_first:
  "get_table w (dict_get a ''table_id'') = Inr schema \<Longrightarrow>
   generate_sql_query w (dict_get a ''question'') (PList schema) (dict_get a ''table_id'') = ([], Inl e) \<Longrightarrow>
   create_custom_sql_query_to_review w (PDict a) = ([GetTable (dict_get a ''table_id'')], Inl e)"
  by (simp add: create_custom_sql_query_to_review_def get_table_schema_dict dict_get_single io_simps)

section \<open>String-encoded arguments\<close>

text \<open>
  Claim C9. When the \<^verbatim>\<open>arguments\<close> of a tool call are a string, the string is decoded
  with \<^verbatim>\<open>json.loads\<close> before the dispatch. If the decoding fails, the call returns the
  failure result \<^verbatim>\<open>Invalid arguments: expected object or JSON string.\<close> and raises
  nothing. If it gives an object, the call behaves exactly as the call with the same
  tool name and that object as its arguments: the same external calls and the same
  outcome.
\<close>

theorem string_arguments_are_decoded:
  "map_of params ''arguments'' = Some (PStr s) \<Longrightarrow>
   (json_loads w s = None \<longrightarrow>
      handle_tool_call w params =
        ([], Inr (failure_result ''Invalid arguments: expected object or JSON string.''))) \<and>
   (\<forall>kvs params'. json_loads w s = Some (PDict kvs) \<and>
        map_of params' ''arguments'' = Some (PDict kvs) \<and>
        map_of params' ''name'' = map_of params ''name'' \<longrightarrow>
      handle_tool_call w params = handle_tool_call w params')"
proof (intro conjI allI impI)
  assume args: "map_of params ''arguments'' = Some (PStr s)" and none: "json_loads w s = None"
  have "decode_arguments w (dict_get_default params ''arguments'' (PDict [])) = None"
    by (simp add: decode_arguments_def dict_get_default_def args none)
  then show "handle_tool_call w params =
      ([], Inr (failure_result ''Invalid arguments: expected object or JSON string.''))"
    by (simp add: handle_tool_call_dispatch)
next
  fix kvs params'
  assume args: "map_of params ''arguments'' = Some (PStr s)"
    and *: "json_loads w s = Some (PDict kvs) \<and>
        map_of params' ''arguments'' = Some (PDict kvs) \<and>
        map_of params' ''name'' = map_of params ''name''"
  from * have name: "dict_get params' ''name'' = dict_get params ''name''"
    by (intro dict_get_cong) simp
  from * have d1: "decode_arguments w (dict_get_default params ''arguments'' (PDict [])) = Some (PDict kvs)"
    by (simp add: decode_arguments_def dict_get_default_def args)
  from * have d2: "decode_arguments w (dict_get_default params' ''arguments'' (PDict [])) = Some (PDict kvs)"
    by (simp add: decode_arguments_def dict_get_default_def)
  show "handle_tool_call w params = handle_tool_call w params'"
    by (simp only: handle_tool_call_dispatch d1 d2 name)
qed

theorem string_arguments_are_decoded_witness:
  "handle_tool_call scenario_world
     [(''name'', PStr ''run_sql_query''),
      (''arguments'', PStr ''{\"sql_query\":\"SELECT 1\",\"confirmation_key\":\"x\"}'')] =
     ([RunQuery (PStr ''SELECT 1'')], Inr (success_result '' f0_\<newline>   1'')) \<and>
   handle_tool_call scenario_world
     [(''name'', PStr ''run_sql_query''), (''arguments'', PStr ''{\"sql_query\":'')] =
     ([], Inr (failure_result ''Invalid arguments: expected object or JSON string.''))"
proof -
  let ?enc = "''{\"sql_query\":\"SELECT 1\",\"confirmation_key\":\"x\"}''"
  let ?obj = "[(''sql_query'', PStr ''SELECT 1''), (''confirmation_key'', PStr ''x'')]"
  let ?p = "[(''name'', PStr ''run_sql_query''), (''arguments'', PStr ?enc)]"
  let ?p' = "[(''name'', PStr ''run_sql_query''), (''arguments'', PDict ?obj)]"
  let ?bad = "[(''name'', PStr ''run_sql_query''), (''arguments'', PStr ''{\"sql_query\":'')]"
  have dec: "json_loads scenario_world ?enc = Some (PDict ?obj)"
    by (simp add: scenario_world_def quiet_world_def)
  have nodec: "json_loads scenario_world ''{\"sql_query\":'' = None"
    by (simp add: scenario_world_def quiet_world_def)
  have a: "map_of ?p ''arguments'' = Some (PStr ?enc)" by simp
  have b: "map_of ?bad ''arguments'' = Some (PStr ''{\"sql_query\":'')" by simp
  have "handle_tool_call scenario_world ?p = handle_tool_call scenario_world ?p'"
    using string_arguments_are_decoded [OF a, of scenario_world] dec by simp
  moreover have "handle_tool_call scenario_world ?bad =
      ([], Inr (failure_result ''Invalid arguments: expected object or JSON string.''))"
    using string_arguments_are_decoded [OF b, of scenario_world] nodec by simp
  ultimately show ?thesis by (simp add: scenario_call)
qed

section \<open>The shape of a tool-call result\<close>

text \<open>
  Claim C10. Whenever \<^verbatim>\<open>handle_tool_call\<close> returns, its result has a \<^verbatim>\<open>content\<close>
  field that is a list of exactly one element \<^verbatim>\<open>{type: "text", text: s}\<close>, with or
  without \<^verbatim>\<open>isError: True\<close> before it and no other field. When the tool name is
  registered and the arguments decode: if the handler returns \<open>data\<close>, the call returns,
  after the same external calls, the result with no \<^verbatim>\<open>isError\<close> field whose text is
  \<^verbatim>\<open>str(data)\<close>; and every result of the call arises so.
\<close>

theorem tool_call_result_shape:
  "(handle_tool_call w params = (t, Inr r) \<longrightarrow>
      (\<exists>s. r = PDict [(''content'', PList [PDict [(''type'', PStr ''text''), (''text'', PStr s)]])] \<or>
           r = PDict [(''isError'', PBool True),
                      (''content'', PList [PDict [(''type'', PStr ''text''), (''text'', PStr s)]])])) \<and>
   (registered_handler (dict_get params ''name'') = Some h \<and>
    decode_arguments w (dict_get_default params ''arguments'' (PDict [])) = Some a \<longrightarrow>
      (h w a = (t, Inr data) \<longrightarrow>
         handle_tool_call w params =
           (t, Inr (PDict [(''content'',
                            PList [PDict [(''type'', PStr ''text''), (''text'', PStr (py_str w data))]])]))) \<and>
      (handle_tool_call w params = (t, Inr r) \<longrightarrow>
         (\<exists>d. h w a = (t, Inr d) \<and>
              r = PDict [(''content'',
                          PList [PDict [(''type'', PStr ''text''), (''text'', PStr (py_str w d))]])])))"
  by (auto simp: handle_tool_call_dispatch bind_io_def failure_result_def success_result_def
      split: option.splits prod.splits sum.splits)

theorem tool_call_result_shape_witness:
  "run_sql_query_via_bq_api scenario_world
     (PDict [(''sql_query'', PStr ''SELECT 1''), (''confirmation_key'', PStr ''x'')]) =
     ([RunQuery (PStr ''SELECT 1'')], Inr (PStr '' f0_\<newline>   1'')) \<and>
   handle_tool_call scenario_world
     [(''name'', PStr ''run_sql_query''),
      (''arguments'', PDict [(''sql_query'', PStr ''SELECT 1''), (''confirmation_key'', PStr ''x'')])] =
     ([RunQuery (PStr ''SELECT 1'')],
      Inr (PDict [(''content'', PList [PDict [(''type'', PStr ''text''),
                                              (''text'', PStr '' f0_\<newline>   1'')]])]))"
proof -
  let ?a = "PDict [(''sql_query'', PStr ''SELECT 1''), (''confirmation_key'', PStr ''x'')]"
  let ?p = "[(''name'', PStr ''run_sql_query''), (''arguments'', ?a)]"
  let ?t = "[RunQuery (PStr ''SELECT 1'')]"
  have call: "handle_tool_call scenario_world ?p = (?t, Inr (success_result '' f0_\<newline>   1''))"
    by (rule scenario_call)
  have run: "run_sql_query_via_bq_api scenario_world ?a = (?t, Inr (PStr '' f0_\<newline>   1''))"
    by (simp add: run_sql_query_reads_sql_query dict_get_def io_simps scenario_world_def
        quiet_world_def clean_rows_def)
  have h: "registered_handler (dict_get ?p ''name'') = Some run_sql_query_via_bq_api"
    by (simp add: registered_handler_def dict_get_def)
  have d: "decode_arguments scenario_world (dict_get_default ?p ''arguments'' (PDict [])) = Some ?a"
    by (simp add: decode_arguments_def dict_get_default_def)
  from tool_call_result_shape [of scenario_world ?p ?t "success_result '' f0_\<newline>   1''"
      run_sql_query_via_bq_api ?a] call h d
  obtain data where result: "run_sql_query_via_bq_api scenario_world ?a = (?t, Inr data)"
    and shape: "success_result '' f0_\<newline>   1'' =
      PDict [(''content'', PList [PDict [(''type'', PStr ''text''),
                                         (''text'', PStr (py_str scenario_world data))]])]"
    by blast
  from result have "data = PStr '' f0_\<newline>   1''"
    unfolding run by simp
  with shape have "success_result '' f0_\<newline>   1'' =
      PDict [(''content'', PList [PDict [(''type'', PStr ''text''),
                                         (''text'', PStr '' f0_\<newline>   1'')]])]"
    by (simp add: py_str_def)
  with call run show ?thesis
    by (simp only:)
qed

section \<open>Unknown methods and unknown tools\<close>

lemma registered_handler_None_iff:
  "registered_handler n = None \<longleftrightarrow> n \<notin> PStr ` set tool_names"
  by (auto simp: registered_handler_def tool_names_def)

text \<open>
  Claim C5, amended. A method other than \<^verbatim>\<open>initialize\<close>, \<^verbatim>\<open>tools/list\<close> and
  \<^verbatim>\<open>tools/call\<close> makes \<^verbatim>\<open>handle_request\<close> raise \<^verbatim>\<open>ValueError\<close> with the message
  \<^verbatim>\<open>Method not found: <method>\<close>, and nothing is returned. A \<^verbatim>\<open>tools/call\<close> whose tool
  name is not in the registry never raises and makes no external call: it returns a
  result with \<^verbatim>\<open>isError: True\<close>. Its message is \<^verbatim>\<open>Tool not found: <name>\<close>, except
  when the arguments are a string that does not decode: the check of the arguments
  comes first, and the message is then
  \<^verbatim>\<open>Invalid arguments: expected object or JSON string.\<close>
\<close>

theorem router_asymmetry:
  "(method_name \<notin> {''initialize'', ''tools/list'', ''tools/call''} \<longrightarrow>
      handle_request w method_name params =
        ([], Inl (ValueError (''Method not found: '' @ method_name)))) \<and>
   (dict_get params ''name'' \<notin> PStr ` set tool_names \<longrightarrow>
      handle_request w ''tools/call'' params =
        ([], Inr (PDict [
           (''isError'', PBool True),
           (''content'', PList [PDict [
              (''type'', PStr ''text''),
              (''text'', PStr
                 (if decode_arguments w (dict_get_default params ''arguments'' (PDict [])) = None
                  then ''Invalid arguments: expected object or JSON string.''
                  else ''Tool not found: '' @ py_str w (dict_get params ''name'')))]])])))"
proof (intro conjI impI)
  assume "method_name \<notin> {''initialize'', ''tools/list'', ''tools/call''}"
  then show "handle_request w method_name params =
      ([], Inl (ValueError (''Method not found: '' @ method_name)))"
    by (simp add: handle_request_def raise_io_def)
next
  assume "dict_get params ''name'' \<notin> PStr ` set tool_names"
  then have "registered_handler (dict_get params ''name'') = None"
    by (simp add: registered_handler_None_iff)
  then show "handle_request w ''tools/call'' params =
        ([], Inr (PDict [
           (''isError'', PBool True),
           (''content'', PList [PDict [
              (''type'', PStr ''text''),
              (''text'', PStr
                 (if decode_arguments w (dict_get_default params ''arguments'' (PDict [])) = None
                  then ''Invalid arguments: expected object or JSON string.''
                  else ''Tool not found: '' @ py_str w (dict_get params ''name'')))]])]))"
    by (simp add: handle_request_def handle_tool_call_dispatch failure_result_def
        split: option.splits)
qed

theorem router_asymmetry_witness:
  "handle_request quiet_world ''resources/list'' [] =
     ([], Inl (ValueError ''Method not found: resources/list'')) \<and>
   handle_request quiet_world ''tools/call''
     [(''name'', PStr ''no_such_tool''), (''arguments'', PDict [])] =
     ([], Inr (PDict [
        (''isError'', PBool True),
        (''content'', PList [PDict [(''type'', PStr ''text''),
                                    (''text'', PStr ''Tool not found: no_such_tool'')]])]))"
proof -
  let ?p = "[(''name'', PStr ''no_such_tool''), (''arguments'', PDict [])]"
  have m: "''resources/list'' \<notin> {''initialize'', ''tools/list'', ''tools/call''}"
    by simp
  have n: "dict_get ?p ''name'' \<notin> PStr ` set tool_names"
    by (simp add: dict_get_def tool_names_def)
  have d: "decode_arguments quiet_world (dict_get_default ?p ''arguments'' (PDict [])) \<noteq> None"
    by (simp add: decode_arguments_def dict_get_default_def)
  from router_asymmetry [of "''resources/list''" quiet_world "[]"] m
    router_asymmetry [of "''resources/list''" quiet_world ?p] n d
  show ?thesis
    by (simp add: py_str_def dict_get_def)
qed

text \<open>
  The claim as first stated fails for an unknown tool called with string arguments that
  do not decode: the result is a failure, but its message does not name the tool.
\<close>

theorem unknown_tool_bad_arguments_counterexample:
  "handle_request quiet_world ''tools/call''
     [(''name'', PStr ''no_such_tool''), (''arguments'', PStr ''{'')] =
     ([], Inr (PDict [
        (''isError'', PBool True),
        (''content'', PList [PDict [
           (''type'', PStr ''text''),
           (''text'', PStr ''Invalid arguments: expected object or JSON string.'')]])])) \<and>
   \<not> sublist ''no_such_tool'' ''Invalid arguments: expected object or JSON string.''"
  by (simp add: handle_request_def handle_tool_call_dispatch failure_result_def
      decode_arguments_def dict_get_default_def quiet_world_def sublist_code)

section \<open>Exceptions of tool handlers\<close>

text \<open>
  The report of datasets never raises: both of its \<^verbatim>\<open>try\<close> blocks catch every
  exception and turn it into text.
\<close>

lemma dataset_loop_returns:
  "\<exists>t ls. dataset_loop w ds out = (t, Inr ls)"
proof (induction ds arbitrary: out)
  case Nil
  show ?case by (simp add: return_io_def)
next
  case (Cons d ds)
  show ?case
  proof (cases "list_tables w d")
    case (Inl e)
    with Cons [of "out @ [''\<newline>'' @ folder_icon @ '' Dataset: '' @ d] @
        [''   '' @ branch_icon @ '' [Error listing tables: '' @ exc_str e @ '']'']"]
    show ?thesis
      by (auto simp: io_simps Let_def)
  next
    case (Inr tables)
    show ?thesis
    proof (cases "tables = []")
      case True
      with Inr Cons [of "out @ [''\<newline>'' @ folder_icon @ '' Dataset: '' @ d] @
          [''   '' @ branch_icon @ '' (No tables in this dataset)'']"]
      show ?thesis
        by (auto simp: io_simps Let_def)
    next
      case False
      with Inr Cons [of "out @ [''\<newline>'' @ folder_icon @ '' Dataset: '' @ d] @
          map (\<lambda>table. ''   '' @ branch_icon @ '' '' @ page_icon @ '' Table: '' @ table) tables"]
      show ?thesis
        by (auto simp: io_simps Let_def)
    qed
  qed
qed

lemma get_list_of_datasets_returns:
  "\<exists>t s. get_list_of_datasets_by_project_id w a = (t, Inr (PStr s))"
proof (cases "list_datasets w project_id")
  case (Inl e)
  then show ?thesis
    by (simp add: get_list_of_datasets_by_project_id_def io_simps)
next
  case (Inr datasets)
  show ?thesis
  proof (cases "datasets = []")
    case True
    with Inr show ?thesis
      by (simp add: get_list_of_datasets_by_project_id_def io_simps)
  next
    case False
    obtain t ls where "dataset_loop w datasets
        [''--- Inspecting Project: '' @ project_id @ '' ---''] = (t, Inr ls)"
      using dataset_loop_returns by blast
    with Inr False show ?thesis
      by (simp add: get_list_of_datasets_by_project_id_def io_simps)
  qed
qed

lemma get_list_of_datasets_ignores_arguments:
  "get_list_of_datasets_by_project_id w a = get_list_of_datasets_by_project_id w a'"
  by (simp add: get_list_of_datasets_by_project_id_def)

text \<open>
  Claim C4, amended. \<^verbatim>\<open>handle_tool_call\<close> has no \<^verbatim>\<open>try\<close> around its handlers: an
  exception raised inside a registered tool handler is not caught by the dispatch, and
  \<^verbatim>\<open>handle_tool_call\<close> raises the same exception after the same external calls. The
  one handler that never raises is \<^verbatim>\<open>get_list_of_datasets_by_project_id\<close>: it catches
  the warehouse's exceptions itself and returns them as text.
\<close>

theorem handler_exceptions_propagate:
  "(registered_handler (dict_get params ''name'') = Some h \<and>
    decode_arguments w (dict_get_default params ''arguments'' (PDict [])) = Some a \<and>
    h w a = (t, Inl e) \<longrightarrow>
      handle_tool_call w params = (t, Inl e)) \<and>
   (\<exists>t' s. get_list_of_datasets_by_project_id w a = (t', Inr (PStr s)))"
  by (auto simp: handle_tool_call_dispatch bind_io_Inl get_list_of_datasets_returns)

lemma missing_table_schema:
  "get_table_schema missing_table_world (PDict [(''table_id'', PStr ''p.d.missing'')]) =
     ([GetTable (PStr ''p.d.missing'')],
      Inl (GoogleAPICallError ''Not found: Table p.d.missing'' ''404 Not found: Table p.d.missing''))"
  by (simp add: get_table_schema_dict dict_get_def missing_table_world_def quiet_world_def)

theorem handler_exceptions_propagate_witness:
  "handle_tool_call missing_table_world
     [(''name'', PStr ''get_table_schema''),
      (''arguments'', PDict [(''table_id'', PStr ''p.d.missing'')])] =
     ([GetTable (PStr ''p.d.missing'')],
      Inl (GoogleAPICallError ''Not found: Table p.d.missing'' ''404 Not found: Table p.d.missing''))"
proof -
  let ?a = "PDict [(''table_id'', PStr ''p.d.missing'')]"
  let ?p = "[(''name'', PStr ''get_table_schema''), (''arguments'', ?a)]"
  have h: "registered_handler (dict_get ?p ''name'') = Some get_table_schema"
    by (simp add: registered_handler_def dict_get_def)
  have d: "decode_arguments missing_table_world (dict_get_default ?p ''arguments'' (PDict [])) = Some ?a"
    by (simp add: decode_arguments_def dict_get_default_def)
  from handler_exceptions_propagate [of ?p get_table_schema missing_table_world ?a] h d
    missing_table_schema
  show ?thesis by blast
qed

text \<open>
  The claim as first stated fails: a table the warehouse does not know makes the call
  of \<^verbatim>\<open>get_table_schema\<close> raise the warehouse's exception, not return a failure result.
\<close>

theorem handler_exception_escapes_counterexample:
  "snd (handle_tool_call missing_table_world
     [(''name'', PStr ''get_table_schema''),
      (''arguments'', PDict [(''table_id'', PStr ''p.d.missing'')])]) =
     Inl (GoogleAPICallError ''Not found: Table p.d.missing'' ''404 Not found: Table p.d.missing'')"
  by (simp add: handle_tool_call_dispatch registered_handler_def dict_get_def
      decode_arguments_def dict_get_default_def missing_table_schema bind_io_Inl)

section \<open>The tool descriptors and what the handlers read\<close>

lemma listed_tools_names:
  "map (\<lambda>d. py_getitem_key d ''name'') listed_tools = map (\<lambda>n. Inr (PStr n)) tool_names"
  by (simp add: listed_tools_def handle_tools_list_def tool_names_def)

lemma listed_tools_closed:
  "\<forall>d \<in> set listed_tools. input_schema_field d ''additionalProperties'' = Inr (PBool False)"
  by (simp add: listed_tools_def handle_tools_list_def input_schema_field_def bind_r_def)

lemma listed_tools_required:
  "map (\<lambda>d. input_schema_field d ''required'') listed_tools =
     [Inr (PList [PStr ''query'']),
      Inr (PList [PStr ''table_id'']),
      Inr (PList [PStr ''question'', PStr ''table_id'']),
      Inr (PList [PStr ''sql_query'', PStr ''confirmation_key''])]"
  by (simp add: listed_tools_def handle_tools_list_def input_schema_field_def bind_r_def)

lemma handle_tools_list_tools:
  "handle_tools_list = PDict [(''tools'', PList listed_tools)]"
  by (simp add: listed_tools_def handle_tools_list_def)

lemma required_of_values:
  "required_of ''get_list_of_datasets_by_project_id'' = Some (PList [PStr ''query''])"
  "required_of ''get_table_schema'' = Some (PList [PStr ''table_id''])"
  "required_of ''create_custom_sql_query_to_review'' = Some (PList [PStr ''question'', PStr ''table_id''])"
  "required_of ''run_sql_query'' = Some (PList [PStr ''sql_query'', PStr ''confirmation_key''])"
  by (simp_all add: required_of_def listed_tools_def handle_tools_list_def input_schema_field_def
      bind_r_def)

lemma get_table_schema_reads_table_id:
  "map_of a ''table_id'' = map_of a' ''table_id'' \<Longrightarrow>
   get_table_schema w (PDict a) = get_table_schema w (PDict a')"
  by (simp add: get_table_schema_dict dict_get_def)

lemma create_custom_reads_question_and_table_id:
  "map_of a ''question'' = map_of a' ''question'' \<Longrightarrow>
   map_of a ''table_id'' = map_of a' ''table_id'' \<Longrightarrow>
   create_custom_sql_query_to_review w (PDict a) = create_custom_sql_query_to_review w (PDict a')"
  by (simp add: create_custom_sql_query_to_review_def dict_get_def lift_io_def)

lemma run_sql_query_reads_only_sql_query:
  "map_of a ''sql_query'' = map_of a' ''sql_query'' \<Longrightarrow>
   run_sql_query_via_bq_api w (PDict a) = run_sql_query_via_bq_api w (PDict a')"
  by (simp add: run_sql_query_reads_sql_query dict_get_def)

text \<open>
  Claim C8, amended. \<^verbatim>\<open>tools/list\<close> always returns exactly four descriptors, named
  \<^verbatim>\<open>get_list_of_datasets_by_project_id\<close>, \<^verbatim>\<open>get_table_schema\<close>,
  \<^verbatim>\<open>create_custom_sql_query_to_review\<close> and \<^verbatim>\<open>run_sql_query\<close>, each with
  \<^verbatim>\<open>additionalProperties: False\<close> and a non-empty \<^verbatim>\<open>required\<close> list: \<^verbatim>\<open>[query]\<close>,
  \<^verbatim>\<open>[table_id]\<close>, \<^verbatim>\<open>[question, table_id]\<close> and \<^verbatim>\<open>[sql_query, confirmation_key]\<close>.
  For \<^verbatim>\<open>get_table_schema\<close> and \<^verbatim>\<open>create_custom_sql_query_to_review\<close> the handler reads
  exactly the listed keys: its outcome depends on nothing else in the arguments. The
  handler of \<^verbatim>\<open>get_list_of_datasets_by_project_id\<close> reads no argument (\<^verbatim>\<open>query\<close> is
  unused), and the handler of \<^verbatim>\<open>run_sql_query\<close> reads only \<^verbatim>\<open>sql_query\<close>
  (\<^verbatim>\<open>confirmation_key\<close> is unused).
\<close>

theorem tools_list_descriptors:
  "handle_request w ''tools/list'' params = ([], Inr (PDict [(''tools'', PList listed_tools)])) \<and>
   map (\<lambda>d. py_getitem_key d ''name'') listed_tools =
     [Inr (PStr ''get_list_of_datasets_by_project_id''), Inr (PStr ''get_table_schema''),
      Inr (PStr ''create_custom_sql_query_to_review''), Inr (PStr ''run_sql_query'')] \<and>
   (\<forall>d \<in> set listed_tools. input_schema_field d ''additionalProperties'' = Inr (PBool False)) \<and>
   map (\<lambda>d. input_schema_field d ''required'') listed_tools =
     [Inr (PList [PStr ''query'']),
      Inr (PList [PStr ''table_id'']),
      Inr (PList [PStr ''question'', PStr ''table_id'']),
      Inr (PList [PStr ''sql_query'', PStr ''confirmation_key''])] \<and>
   get_list_of_datasets_by_project_id w (PDict a) = get_list_of_datasets_by_project_id w (PDict a') \<and>
   (map_of a ''table_id'' = map_of a' ''table_id'' \<longrightarrow>
      get_table_schema w (PDict a) = get_table_schema w (PDict a')) \<and>
   (map_of a ''question'' = map_of a' ''question'' \<and> map_of a ''table_id'' = map_of a' ''table_id'' \<longrightarrow>
      create_custom_sql_query_to_review w (PDict a) = create_custom_sql_query_to_review w (PDict a')) \<and>
   (map_of a ''sql_query'' = map_of a' ''sql_query'' \<longrightarrow>
      run_sql_query_via_bq_api w (PDict a) = run_sql_query_via_bq_api w (PDict a'))"
proof (intro conjI impI)
  show "handle_request w ''tools/list'' params = ([], Inr (PDict [(''tools'', PList listed_tools)]))"
    by (simp add: handle_request_def return_io_def handle_tools_list_tools)
  show "map (\<lambda>d. py_getitem_key d ''name'') listed_tools =
     [Inr (PStr ''get_list_of_datasets_by_project_id''), Inr (PStr ''get_table_schema''),
      Inr (PStr ''create_custom_sql_query_to_review''), Inr (PStr ''run_sql_query'')]"
    by (simp add: listed_tools_names tool_names_def)
  show "\<forall>d \<in> set listed_tools. input_schema_field d ''additionalProperties'' = Inr (PBool False)"
    by (rule listed_tools_closed)
  show "map (\<lambda>d. input_schema_field d ''required'') listed_tools =
     [Inr (PList [PStr ''query'']),
      Inr (PList [PStr ''table_id'']),
      Inr (PList [PStr ''question'', PStr ''table_id'']),
      Inr (PList [PStr ''sql_query'', PStr ''confirmation_key''])]"
    by (rule listed_tools_required)
  show "get_list_of_datasets_by_project_id w (PDict a) = get_list_of_datasets_by_project_id w (PDict a')"
    by (rule get_list_of_datasets_ignores_arguments)
next
  assume "map_of a ''table_id'' = map_of a' ''table_id''"
  then show "get_table_schema w (PDict a) = get_table_schema w (PDict a')"
    by (rule get_table_schema_reads_table_id)
next
  assume "map_of a ''question'' = map_of a' ''question'' \<and> map_of a ''table_id'' = map_of a' ''table_id''"
  then show "create_custom_sql_query_to_review w (PDict a) = create_custom_sql_query_to_review w (PDict a')"
    by (intro create_custom_reads_question_and_table_id) simp_all
next
  assume "map_of a ''sql_query'' = map_of a' ''sql_query''"
  then show "run_sql_query_via_bq_api w (PDict a) = run_sql_query_via_bq_api w (PDict a')"
    by (rule run_sql_query_reads_only_sql_query)
qed

lemma quiet_datasets:
  "get_list_of_datasets_by_project_id quiet_world a =
     ([ListDatasets project_id], Inr (PStr ''No datasets found in this project.''))"
  by (simp add: get_list_of_datasets_by_project_id_def io_simps quiet_world_def)

theorem tools_list_descriptors_witness:
  "length listed_tools = 4 \<and>
   get_table_schema missing_table_world (PDict [(''table_id'', PStr ''p.d.missing''), (''extra'', PInt 1)]) =
     ([GetTable (PStr ''p.d.missing'')],
      Inl (GoogleAPICallError ''Not found: Table p.d.missing'' ''404 Not found: Table p.d.missing'')) \<and>
   run_sql_query_via_bq_api scenario_world
     (PDict [(''sql_query'', PStr ''SELECT 1''), (''confirmation_key'', PStr ''x'')]) =
     ([RunQuery (PStr ''SELECT 1'')], Inr (PStr '' f0_\<newline>   1''))"
proof -
  have a: "map_of [(''table_id'', PStr ''p.d.missing''), (''extra'', PInt 1)] ''table_id'' =
           map_of [(''table_id'', PStr ''p.d.missing'')] ''table_id''"
    by simp
  have b: "map_of [(''sql_query'', PStr ''SELECT 1''), (''confirmation_key'', PStr ''x'')] ''sql_query'' =
           map_of [(''sql_query'', PStr ''SELECT 1'')] ''sql_query''"
    by simp
  have "length (map (\<lambda>d. py_getitem_key d ''name'') listed_tools) = 4"
    using tools_list_descriptors [of quiet_world "[]" "[]" "[]"] by simp
  then have "length listed_tools = 4" by simp
  moreover have "get_table_schema missing_table_world
      (PDict [(''table_id'', PStr ''p.d.missing''), (''extra'', PInt 1)]) =
      get_table_schema missing_table_world (PDict [(''table_id'', PStr ''p.d.missing'')])"
    using tools_list_descriptors [of missing_table_world "[]"
        "[(''table_id'', PStr ''p.d.missing''), (''extra'', PInt 1)]"
        "[(''table_id'', PStr ''p.d.missing'')]"] a by simp
  moreover have "run_sql_query_via_bq_api scenario_world
      (PDict [(''sql_query'', PStr ''SELECT 1''), (''confirmation_key'', PStr ''x'')]) =
      run_sql_query_via_bq_api scenario_world (PDict [(''sql_query'', PStr ''SELECT 1'')])"
    using tools_list_descriptors [of scenario_world "[]"
        "[(''sql_query'', PStr ''SELECT 1''), (''confirmation_key'', PStr ''x'')]"
        "[(''sql_query'', PStr ''SELECT 1'')]"] b by simp
  ultimately show ?thesis
    by (simp add: missing_table_schema scenario_run)
qed

text \<open>
  The claim as first stated fails: \<^verbatim>\<open>query\<close> and \<^verbatim>\<open>confirmation_key\<close> are listed as
  required, and the handlers run the same without them.
\<close>

theorem required_arguments_not_read_counterexample:
  "required_of ''get_list_of_datasets_by_project_id'' = Some (PList [PStr ''query'']) \<and>
   get_list_of_datasets_by_project_id quiet_world (PDict []) =
     ([ListDatasets project_id], Inr (PStr ''No datasets found in this project.'')) \<and>
   get_list_of_datasets_by_project_id quiet_world (PDict [(''query'', PStr ''which datasets?'')]) =
     ([ListDatasets project_id], Inr (PStr ''No datasets found in this project.'')) \<and>
   required_of ''run_sql_query'' = Some (PList [PStr ''sql_query'', PStr ''confirmation_key'']) \<and>
   run_sql_query_via_bq_api scenario_world (PDict [(''sql_query'', PStr ''SELECT 1'')]) =
     ([RunQuery (PStr ''SELECT 1'')], Inr (PStr '' f0_\<newline>   1''))"
  by (simp add: required_of_values quiet_datasets scenario_run)

section \<open>The review of a generated statement\<close>

lemma review_message_invalid:
  "review_message w question table_schema table_id c
     (PDict [(''status'', PStr ''INVALID''), (''message'', PStr msg), (''error_details'', PStr d)]) =
     Inr (invalid_message w question table_schema)"
  by (simp add: review_message_def bind_r_def)

lemma review_message_error:
  "review_message w question table_schema table_id c
     (PDict [(''status'', PStr ''ERROR''), (''message'', PStr msg), (''error_details'', PStr d)]) =
     Inl (KeyError (py_quote ''estimated_cost_usd''))"
  by (simp add: review_message_def bind_r_def)

lemma review_message_valid:
  "review_message w question table_schema table_id c
     (PDict [(''status'', PStr ''VALID''), (''message'', PStr msg),
             (''estimated_cost_usd'', cost), (''bytes_processed'', bytes)]) =
     Inr (valid_message w table_id question table_schema c cost bytes)"
  by (simp add: review_message_def bind_r_def)

text \<open>
  The path of \<^verbatim>\<open>generate_sql_query\<close> on which the provider has answered with a
  candidate: up to the dry run.
\<close>

lemma generate_sql_query_candidate:
  assumes "py_truthy question" and "py_truthy table_id"
    and "getenv_GOOGLE_AI_KEY w = Some key" and "key \<noteq> []"
    and "bq_sql_gnerator_system_prompt w question table_schema table_id = Inr sp"
    and "gemini_post w (gemini_url ''gemini-2.5-flash'' key) (gemini_payload w sp question) = Inr result"
    and "has_candidates result = Inr True"
    and "candidate_text result = Inr c"
    and "check_query_validity_and_cost w c = (tc, Inr qs)"
    and "review_message w question table_schema table_id c qs = rm"
    and "\<forall>s. rm \<noteq> Inl (RequestException s)"
  shows "generate_sql_query w question table_schema table_id =
     (GeminiPost (gemini_url ''gemini-2.5-flash'' key) (gemini_payload w sp question) # tc,
      case rm of
        Inl e \<Rightarrow> Inl (PlainException (''Error processing Gemini API response: '' @ exc_str e))
      | Inr m \<Rightarrow>
          Inr (PDict [(''sql_query'', PStr m), (''user_query'', question), (''status'', PStr ''success'')]))"
proof (cases rm)
  case (Inl e)
  with assms(11) have "\<forall>s. e \<noteq> RequestException s" by simp
  with Inl assms(1-10) show ?thesis
    by (cases e) (simp_all add: generate_sql_query_def io_simps Let_def)
next
  case (Inr m)
  with assms(1-10) show ?thesis
    by (simp add: generate_sql_query_def io_simps Let_def)
qed

text \<open>What the message of the \<^verbatim>\<open>INVALID\<close> branch holds.\<close>

lemma sublist_later: "sublist xs ys \<Longrightarrow> sublist xs (zs @ ys)"
proof -
  assume "sublist xs ys"
  then obtain ps ss where "ys = ps @ xs @ ss"
    by (auto simp: sublist_def)
  then have "zs @ ys = (zs @ ps) @ xs @ ss"
    by simp
  then show ?thesis
    unfolding sublist_def by blast
qed

lemma invalid_message_opening:
  "prefix ''This SQL query is not valid'' (invalid_message w question table_schema)"
  by (simp add: invalid_message_def)

lemma invalid_message_embeds_question:
  "sublist (py_str w question) (invalid_message w question table_schema)"
  unfolding invalid_message_def
  by (intro sublist_append_rightI sublist_later)

lemma invalid_message_embeds_schema:
  "sublist (py_str w table_schema) (invalid_message w question table_schema)"
  unfolding invalid_message_def
  by (intro sublist_append_rightI sublist_later)

lemma invalid_message_not_valid_message:
  "invalid_message w question table_schema \<noteq> valid_message w' tid q' s' g cost bytes"
  by (simp add: invalid_message_def valid_message_def)

text \<open>
  The \<^verbatim>\<open>ERROR\<close> status has no branch of its own: it takes the \<^verbatim>\<open>else\<close> branch, whose
  message reads \<^verbatim>\<open>query_status['estimated_cost_usd']\<close>, a key the \<^verbatim>\<open>ERROR\<close> dict does
  not have. The \<^verbatim>\<open>KeyError\<close> is caught by the last handler and raised again as a plain
  exception.
\<close>

lemma error_status_raises:
  assumes "py_truthy question" and "py_truthy table_id"
    and "getenv_GOOGLE_AI_KEY w = Some key" and "key \<noteq> []"
    and "bq_sql_gnerator_system_prompt w question table_schema table_id = Inr sp"
    and "gemini_post w (gemini_url ''gemini-2.5-flash'' key) (gemini_payload w sp question) = Inr result"
    and "has_candidates result = Inr True"
    and "candidate_text result = Inr c"
    and "dry_run w c = Inl e" and "\<not> is_api_error e"
  shows "generate_sql_query w question table_schema table_id =
     ([GeminiPost (gemini_url ''gemini-2.5-flash'' key) (gemini_payload w sp question), DryRun c],
      Inl (PlainException (''Error processing Gemini API response: '' @ py_quote ''estimated_cost_usd'')))"
  using generate_sql_query_candidate [OF assms(1-8) check_error_exc [OF assms(9,10)]
      review_message_error]
  by simp

lemma users_prompt:
  "bq_sql_gnerator_system_prompt w (PStr ''how many users?'') users_schema (PStr ''p.d.users'') =
     Inr (system_prompt_text w (PStr ''how many users?'')
            ''- id (INTEGER, REQUIRED)\<newline>- name (STRING, NULLABLE)'' (PStr ''p.d.users''))"
  by (simp add: bq_sql_gnerator_system_prompt_def users_schema_def schema_line_def bind_r_def
      py_str_def)

lemma candidate_response_text:
  "has_candidates candidate_response = Inr True"
  "candidate_text candidate_response = Inr (PStr ''SELEC 1'')"
  by (simp_all add: has_candidates_def candidate_text_def candidate_response_def bind_r_def)

text \<open>The pipeline in the three sample environments.\<close>

lemma invalid_world_review:
  "generate_sql_query invalid_sql_world (PStr ''how many users?'') users_schema (PStr ''p.d.users'') =
     ([GeminiPost (gemini_url ''gemini-2.5-flash'' ''key'')
         (gemini_payload invalid_sql_world
            (system_prompt_text invalid_sql_world (PStr ''how many users?'')
               ''- id (INTEGER, REQUIRED)\<newline>- name (STRING, NULLABLE)'' (PStr ''p.d.users''))
            (PStr ''how many users?'')),
       DryRun (PStr ''SELEC 1'')],
      Inr (PDict [(''sql_query'',
                   PStr (invalid_message invalid_sql_world (PStr ''how many users?'') users_schema)),
                  (''user_query'', PStr ''how many users?''),
                  (''status'', PStr ''success'')]))"
proof -
  have dry: "dry_run invalid_sql_world (PStr ''SELEC 1'') =
      Inl (GoogleAPICallError ''Syntax error'' ''400 Syntax error'')"
    by (simp add: invalid_sql_world_def quiet_world_def)
  show ?thesis
    using generate_sql_query_candidate [OF _ _ _ _ users_prompt _ candidate_response_text
        check_invalid [OF dry] review_message_invalid, of "''key''"]
    by (simp add: invalid_sql_world_def quiet_world_def)
qed

lemma valid_world_review:
  "result_field
     (generate_sql_query valid_sql_world (PStr ''how many users?'') users_schema (PStr ''p.d.users''))
     ''status'' = Some (PStr ''success'')"
proof -
  have dry: "dry_run valid_sql_world (PStr ''SELEC 1'') = Inr (Some 1024)"
    by (simp add: valid_sql_world_def quiet_world_def)
  show ?thesis
    using generate_sql_query_candidate [OF _ _ _ _ users_prompt _ candidate_response_text
        check_valid [OF dry] review_message_valid, of "''key''"]
    by (simp add: valid_sql_world_def quiet_world_def result_field_def)
qed

lemma broken_world_review:
  "snd (generate_sql_query broken_dry_run_world (PStr ''how many users?'') users_schema
          (PStr ''p.d.users'')) =
     Inl (PlainException (''Error processing Gemini API response: '' @ py_quote ''estimated_cost_usd''))"
proof -
  have dry: "dry_run broken_dry_run_world (PStr ''SELEC 1'') = Inl (OtherException ''connection reset'')"
    by (simp add: broken_dry_run_world_def quiet_world_def)
  have other: "\<not> is_api_error (OtherException ''connection reset'')"
    by (simp add: is_api_error_def)
  show ?thesis
    using error_status_raises [OF _ _ _ _ users_prompt _ candidate_response_text dry other, of "''key''"]
    by (simp add: broken_dry_run_world_def quiet_world_def)
qed

lemma invalid_world_message_omits_candidate:
  "\<not> sublist ''SELEC 1''
       (invalid_message invalid_sql_world (PStr ''how many users?'') users_schema)"
  by (simp add: invalid_message_def invalid_sql_world_def quiet_world_def users_schema_def
      py_str_def sublist_code)

text \<open>
  Claim C1, amended. When the dry run classifies the candidate as \<^verbatim>\<open>INVALID\<close>, the
  pipeline returns a \<^verbatim>\<open>GeneratedQuery\<close> whose \<^verbatim>\<open>sql_query\<close> is a corrective-guidance
  message: it opens with \<^verbatim>\<open>This SQL query is not valid\<close> and embeds the original
  question and the schema. The \<^verbatim>\<open>status\<close> field is \<^verbatim>\<open>success\<close>, the same value as for a
  \<^verbatim>\<open>VALID\<close> candidate: the two outcomes differ in the message only, and the message of
  the \<^verbatim>\<open>INVALID\<close> outcome is never the message of a \<^verbatim>\<open>VALID\<close> one, which states that
  the statement has been validated and can be executed.
\<close>

theorem invalid_sql_review:
  assumes "py_truthy question" and "py_truthy table_id"
    and "getenv_GOOGLE_AI_KEY w = Some key" and "key \<noteq> []"
    and "bq_sql_gnerator_system_prompt w question table_schema table_id = Inr sp"
    and "gemini_post w (gemini_url ''gemini-2.5-flash'' key) (gemini_payload w sp question) = Inr result"
    and "has_candidates result = Inr True"
    and "candidate_text result = Inr c"
  shows "(dry_run w c = Inl (GoogleAPICallError m s) \<longrightarrow>
      generate_sql_query w question table_schema table_id =
        ([GeminiPost (gemini_url ''gemini-2.5-flash'' key) (gemini_payload w sp question), DryRun c],
         Inr (PDict [(''sql_query'', PStr (invalid_message w question table_schema)),
                     (''user_query'', question),
                     (''status'', PStr ''success'')]))) \<and>
    (dry_run w c = Inr (Some b) \<longrightarrow>
      generate_sql_query w question table_schema table_id =
        ([GeminiPost (gemini_url ''gemini-2.5-flash'' key) (gemini_payload w sp question), DryRun c],
         Inr (PDict [(''sql_query'', PStr (valid_message w table_id question table_schema c
                        (PFloat (py_round (of_nat b / (1024 ^ 4) * (625 / 100)) 6)) (PInt (int b)))),
                     (''user_query'', question),
                     (''status'', PStr ''success'')]))) \<and>
    prefix ''This SQL query is not valid'' (invalid_message w question table_schema) \<and>
    sublist (py_str w question) (invalid_message w question table_schema) \<and>
    sublist (py_str w table_schema) (invalid_message w question table_schema) \<and>
    invalid_message w question table_schema \<noteq>
      valid_message w table_id question table_schema c
        (PFloat (py_round (of_nat b / (1024 ^ 4) * (625 / 100)) 6)) (PInt (int b))"
proof (intro conjI impI)
  assume "dry_run w c = Inl (GoogleAPICallError m s)"
  from generate_sql_query_candidate [OF assms check_invalid [OF this] review_message_invalid]
  show "generate_sql_query w question table_schema table_id =
        ([GeminiPost (gemini_url ''gemini-2.5-flash'' key) (gemini_payload w sp question), DryRun c],
         Inr (PDict [(''sql_query'', PStr (invalid_message w question table_schema)),
                     (''user_query'', question),
                     (''status'', PStr ''success'')]))"
    by simp
next
  assume "dry_run w c = Inr (Some b)"
  from generate_sql_query_candidate [OF assms check_valid [OF this] review_message_valid]
  show "generate_sql_query w question table_schema table_id =
        ([GeminiPost (gemini_url ''gemini-2.5-flash'' key) (gemini_payload w sp question), DryRun c],
         Inr (PDict [(''sql_query'', PStr (valid_message w table_id question table_schema c
                        (PFloat (py_round (of_nat b / (1024 ^ 4) * (625 / 100)) 6)) (PInt (int b)))),
                     (''user_query'', question),
                     (''status'', PStr ''success'')]))"
    by simp
qed (rule invalid_message_opening invalid_message_embeds_question invalid_message_embeds_schema
    invalid_message_not_valid_message)+

theorem invalid_sql_review_witness:
  "snd (generate_sql_query invalid_sql_world (PStr ''how many users?'') users_schema (PStr ''p.d.users'')) =
     Inr (PDict [(''sql_query'',
                  PStr (invalid_message invalid_sql_world (PStr ''how many users?'') users_schema)),
                 (''user_query'', PStr ''how many users?''),
                 (''status'', PStr ''success'')]) \<and>
   sublist ''how many users?''
     (invalid_message invalid_sql_world (PStr ''how many users?'') users_schema)"
proof -
  have dry: "dry_run invalid_sql_world (PStr ''SELEC 1'') =
      Inl (GoogleAPICallError ''Syntax error'' ''400 Syntax error'')"
    by (simp add: invalid_sql_world_def quiet_world_def)
  have key: "getenv_GOOGLE_AI_KEY invalid_sql_world = Some ''key''"
    by (simp add: invalid_sql_world_def quiet_world_def)
  have post: "gemini_post invalid_sql_world u p = Inr candidate_response" for u p
    by (simp add: invalid_sql_world_def quiet_world_def)
  from invalid_sql_review [OF _ _ key _ users_prompt post candidate_response_text,
      where m = "''Syntax error''" and s = "''400 Syntax error''"] dry
  show ?thesis
    by (simp add: py_str_def)
qed

text \<open>
  The claim as first stated fails. For a rejected candidate \<^verbatim>\<open>SELEC 1\<close> the message does
  not contain the candidate, and the status is \<^verbatim>\<open>success\<close>, as it is for an accepted
  candidate. When the dry run fails outside the API-error channel (\<^verbatim>\<open>ERROR\<close>) no
  message is composed: the call raises.
\<close>

theorem invalid_sql_review_counterexample:
  "result_field
     (generate_sql_query invalid_sql_world (PStr ''how many users?'') users_schema (PStr ''p.d.users''))
     ''sql_query'' =
     Some (PStr (invalid_message invalid_sql_world (PStr ''how many users?'') users_schema)) \<and>
   \<not> sublist ''SELEC 1''
       (invalid_message invalid_sql_world (PStr ''how many users?'') users_schema) \<and>
   result_field
     (generate_sql_query invalid_sql_world (PStr ''how many users?'') users_schema (PStr ''p.d.users''))
     ''status'' = Some (PStr ''success'') \<and>
   result_field
     (generate_sql_query valid_sql_world (PStr ''how many users?'') users_schema (PStr ''p.d.users''))
     ''status'' = Some (PStr ''success'') \<and>
   snd (generate_sql_query broken_dry_run_world (PStr ''how many users?'') users_schema
          (PStr ''p.d.users'')) =
     Inl (PlainException (''Error processing Gemini API response: '' @ py_quote ''estimated_cost_usd''))"
proof -
  have a: "result_field
     (generate_sql_query invalid_sql_world (PStr ''how many users?'') users_schema (PStr ''p.d.users''))
     ''sql_query'' =
     Some (PStr (invalid_message invalid_sql_world (PStr ''how many users?'') users_schema))"
    by (simp add: invalid_world_review result_field_def)
  have b: "result_field
     (generate_sql_query invalid_sql_world (PStr ''how many users?'') users_schema (PStr ''p.d.users''))
     ''status'' = Some (PStr ''success'')"
    by (simp add: invalid_world_review result_field_def)
  show ?thesis
    by (intro conjI a b invalid_world_message_omits_candidate valid_world_review broken_world_review)
qed

end
